theory Spec2Isabelle
  imports Main "HOL-Library.AList"
begin

section \<open>JavaScript values and objects\<close>

text \<open>
  The model-info manifest (the result of \<open>JSON.parse\<close>) and the word-breaking
  sub-descriptor are JavaScript objects. An object is an association list in property
  insertion order (the order \<open>JSON.stringify\<close> writes). Reading a property that is
  absent gives \<open>undefined\<close>; assigning to a property replaces its value in place or
  appends the property; \<open>delete\<close> removes it. Numbers are restricted to integers
  (the only numbers the compiler computes are file sizes).
\<close>

datatype jsval =
    JUndefined
  | JNull
  | JBool bool
  | JNum int
  | JStr string
  | JArr "jsval list"
  | JObj "(string \<times> jsval) list"

type_synonym obj = "(string \<times> jsval) list"

text \<open>JavaScript truthiness, as tested by \<open>||\<close>, \<open>if\<close> and \<open>!\<close>.\<close>

fun truthy :: "jsval \<Rightarrow> bool" where
  "truthy JUndefined = False"
| "truthy JNull = False"
| "truthy (JBool b) = b"
| "truthy (JNum n) = (n \<noteq> 0)"
| "truthy (JStr s) = (s \<noteq> [])"
| "truthy (JArr xs) = True"
| "truthy (JObj ps) = True"

definition js_or :: "jsval \<Rightarrow> jsval \<Rightarrow> jsval" where
  "js_or a b = (if truthy a then a else b)"

definition get_prop :: "obj \<Rightarrow> string \<Rightarrow> jsval" where
  "get_prop ob k = (case map_of ob k of None \<Rightarrow> JUndefined | Some v \<Rightarrow> v)"

definition assign :: "string \<Rightarrow> jsval \<Rightarrow> obj \<Rightarrow> obj" where
  "assign k v ob = AList.update k v ob"

definition delete_prop :: "string \<Rightarrow> obj \<Rightarrow> obj" where
  "delete_prop k ob = AList.delete k ob"

text \<open>A value on which the code calls \<open>map\<close>: an array gives its elements, any other
  value has no such method and the call raises a TypeError (here \<open>None\<close>).\<close>

fun as_array :: "jsval \<Rightarrow> jsval list option" where
  "as_array (JArr xs) = Some xs"
| "as_array _ = None"

text \<open>String conversion of an optional string in a template literal or a concatenation:
  \<open>undefined\<close> is written as the text \<open>undefined\<close>.\<close>

fun str_of :: "string option \<Rightarrow> string" where
  "str_of None = ''undefined''"
| "str_of (Some s) = s"

section \<open>Strings, regular expressions, paths\<close>

definition NL :: string where
  "NL = [CHR 0x0A]"

text \<open>\<open>Array.prototype.join\<close> on strings.\<close>

fun join :: "string \<Rightarrow> string list \<Rightarrow> string" where
  "join s [] = []"
| "join s [x] = x"
| "join s (x # y # ys) = x @ s @ join s (y # ys)"

text \<open>\<open>String.prototype.split\<close> with a one-character separator: an empty string splits
  into one empty segment.\<close>

fun split_acc :: "char \<Rightarrow> string \<Rightarrow> string \<Rightarrow> string list" where
  "split_acc s acc [] = [rev acc]"
| "split_acc s acc (c # cs) =
     (if c = s then rev acc # split_acc s [] cs else split_acc s (c # acc) cs)"

definition split :: "char \<Rightarrow> string \<Rightarrow> string list" where
  "split s xs = split_acc s [] xs"

text \<open>Array indexing \<open>paths[i]\<close>: \<open>undefined\<close> (here \<open>None\<close>) out of range.\<close>

definition at :: "string list \<Rightarrow> nat \<Rightarrow> string option" where
  "at xs i = (if i < length xs then Some (xs ! i) else None)"

definition ends_with :: "string \<Rightarrow> string \<Rightarrow> bool" where
  "ends_with suf s = (length suf \<le> length s \<and> drop (length s - length suf) s = suf)"

text \<open>The line terminators that \<open>.\<close> of a regular expression does not match (of the
  characters a \<open>char\<close> can hold).\<close>

definition line_terminator :: "char \<Rightarrow> bool" where
  "line_terminator c = (c = CHR 0x0A \<or> c = CHR 0x0D)"

text \<open>\<open>f.match(/\.model_info$/)\<close>, as a truth value.\<close>

definition is_model_info :: "string \<Rightarrow> bool" where
  "is_model_info f = ends_with ''.model_info'' f"

text \<open>\<open>model_info_file.match(/^(.+)\.model_info$/)\<close>: \<open>None\<close> is the \<open>null\<close> of a failed
  match, \<open>Some\<close> holds capture group 1. The suffix is anchored at the end, so the group is
  the text before it, which \<open>.+\<close> matches when it is not empty and holds no line
  terminator.\<close>

definition match_stem :: "string \<Rightarrow> string option" where
  "match_stem f =
     (let stem = take (length f - length ''.model_info'') f in
      if ends_with ''.model_info'' f \<and> stem \<noteq> [] \<and> \<not> list_ex line_terminator stem
      then Some stem else None)"

text \<open>\<open>MODEL_ID_PATTERN = /^[a-z_][a-z0-9_]*\.[a-z_][a-z0-9_]*\.[a-z_][a-z0-9_]*$/\<close>.
  The matcher reads the pattern left to right. After each \<open>[a-z0-9_]*\<close> the pattern
  continues with a dot or the end of the input, neither of which is in the class, so the
  star takes the longest run of class characters.\<close>

definition id_first :: "char \<Rightarrow> bool" where
  "id_first c = (c \<in> set ''abcdefghijklmnopqrstuvwxyz_'')"

definition id_rest :: "char \<Rightarrow> bool" where
  "id_rest c = (c \<in> set ''abcdefghijklmnopqrstuvwxyz0123456789_'')"

fun match_segment :: "string \<Rightarrow> string option" where
  "match_segment [] = None"
| "match_segment (c # cs) = (if id_first c then Some (dropWhile id_rest cs) else None)"

fun match_dot :: "string \<Rightarrow> string option" where
  "match_dot [] = None"
| "match_dot (c # cs) = (if c = CHR ''.'' then Some cs else None)"

definition MODEL_ID_PATTERN :: "string \<Rightarrow> bool" where
  "MODEL_ID_PATTERN s =
     (case match_segment s of None \<Rightarrow> False | Some r1 \<Rightarrow>
      case match_dot r1 of None \<Rightarrow> False | Some r2 \<Rightarrow>
      case match_segment r2 of None \<Rightarrow> False | Some r3 \<Rightarrow>
      case match_dot r3 of None \<Rightarrow> False | Some r4 \<Rightarrow>
      case match_segment r4 of None \<Rightarrow> False | Some r5 \<Rightarrow> r5 = [])"

text \<open>The pattern read declaratively: a segment is one character of \<open>[a-z_]\<close> followed
  by characters of \<open>[a-z0-9_]\<close>, and an identifier is three segments joined by dots.\<close>

definition segment_shape :: "string \<Rightarrow> bool" where
  "segment_shape x = (case x of [] \<Rightarrow> False | c # cs \<Rightarrow> id_first c \<and> list_all id_rest cs)"

definition identifier_shape :: "string \<Rightarrow> bool" where
  "identifier_shape s =
     (\<exists>a b c. s = a @ ''.'' @ b @ ''.'' @ c \<and> segment_shape a \<and> segment_shape b \<and> segment_shape c)"

text \<open>\<open>e.name.match(/.[ot]tf$/i)\<close>, as a truth value: the name ends in \<open>otf\<close> or
  \<open>ttf\<close> in either case, after one character that is not a line terminator.\<close>

definition is_font :: "string \<Rightarrow> bool" where
  "is_font n =
     (case rev n of
        c1 # c2 # c3 # c4 # _ \<Rightarrow>
          c1 \<in> set ''fF'' \<and> c2 \<in> set ''tT'' \<and> c3 \<in> set ''oOtT'' \<and> \<not> line_terminator c4
      | _ \<Rightarrow> False)"

section \<open>Errors\<close>

text \<open>
  The compiler fails in two ways: it logs an error and returns \<open>false\<close>, or a fault is
  raised (by a null match result, by the file system, by a collaborator) and propagates.
\<close>

datatype exn =
    TypeError
  | ENOENT string
  | Raised string

datatype failure =
    Logged string
  | Threw exn

datatype outcome =
    Completed
  | Failed
  | Thrown exn

section \<open>Data model\<close>

text \<open>
  Modelled from the spec: the fields of \<open>LexicalModelSource\<close> and of
  \<open>LexicalModelCompiled\<close> (lexical-model.ts is not among the sources). The word-breaking
  sub-descriptor is an object held by reference: the field is its address in the heap,
  \<open>None\<close> when the property is absent.
\<close>

record model_source =
  format :: string
  sources :: "string list"
  rootClass :: "string option"
  wordBreaking :: "nat option"

text \<open>\<open>LexicalModelCompiled\<close>, the local \<open>oc\<close>; \<open>oc_fst\<close> is the field of
  \<open>LexicalModelCompiledFst\<close>.\<close>

record compiled =
  oc_id :: string
  oc_format :: string
  oc_wordBreaking :: "nat option"
  oc_fst :: "string option"

text \<open>
  Modelled from the spec: the package descriptor \<open>KmpJsonFile\<close> returned by
  \<open>KmpCompiler.transformKpsToKmpObject\<close> (kmp-compiler.ts is not among the sources).
  Only what \<open>compile\<close> reads is kept: \<open>info.name.description\<close>,
  \<open>info.author.description\<close>, \<open>info.author.url\<close>, \<open>info.version.description\<close>, the
  language ids of each entry of \<open>lexicalModels\<close>, and the names of \<open>files\<close>. A
  description or url that is absent is \<open>undefined\<close>; a descriptor without \<open>info.name\<close>,
  \<open>info.author\<close> or \<open>info.version\<close> is outside the type.
\<close>

record kmp_json =
  info_name_description :: jsval
  info_author_description :: jsval
  info_author_url :: jsval
  info_version_description :: jsval
  lexicalModels :: "string list list"
  kmp_files :: "string list"

text \<open>
  The platform and the collaborators the compiler calls, none of which is part of
  index.ts: \<open>path.sep\<close> and \<open>path.join\<close>; \<open>ts.transpileModule(...).outputText\<close>;
  \<open>createTrieDataStructure\<close>; the two methods of \<open>KmpCompiler\<close>; \<open>JSON.parse\<close> at
  type \<open>ModelInfoFile\<close>; \<open>JSON.stringify\<close> without and with indentation 2;
  \<open>(new Date).toISOString()\<close>; base64 encoding; string conversion of a value. Each
  collaborator that can raise a fault returns it as a value. Of \<open>buildKmpFile\<close> the
  environment gives the bytes of the archive, from the descriptor and the files.
\<close>

record env =
  sep :: char
  path_join :: "string \<Rightarrow> string \<Rightarrow> string"
  transpile :: "string \<Rightarrow> exn + string"
  createTrieDataStructure :: "string list \<Rightarrow> exn + string"
  transformKpsToKmpObject :: "string \<Rightarrow> string \<Rightarrow> exn + kmp_json"
  buildKmpFile :: "kmp_json \<Rightarrow> (string \<rightharpoonup> string) \<Rightarrow> exn + string"
  json_parse :: "string \<Rightarrow> exn + obj"
  json_stringify :: "jsval \<Rightarrow> string"
  json_stringify_pretty :: "jsval \<Rightarrow> string"
  toISOString_now :: string
  base64 :: "string \<Rightarrow> string"
  to_string :: "jsval \<Rightarrow> string"

text \<open>
  What the compiler reads and changes: the names in the parent directory
  (\<open>fs.readdirSync('../')\<close>), the files by the path the code names them with and their
  contents (a text is identified with its bytes, so the size of a file is the length of
  its contents), the working directory, the heap of word-breaking objects, and the lines
  written by \<open>logError\<close>. Paths are compared as they are written: two spellings of the
  path of one file are two files here.
\<close>

record world =
  parent_dir :: "string list"
  files :: "string \<rightharpoonup> string"
  cwd :: string
  heap :: "nat \<Rightarrow> obj"
  errlog :: "string list"

section \<open>File system and helpers\<close>

definition readFileSync :: "(string \<rightharpoonup> string) \<Rightarrow> string \<Rightarrow> exn + string" where
  "readFileSync fs p = (case fs p of None \<Rightarrow> Inl (ENOENT p) | Some c \<Rightarrow> Inr c)"

text \<open>\<open>fs.statSync(p).size\<close>; a path that is not a string raises a TypeError.\<close>

definition statSync_size :: "(string \<rightharpoonup> string) \<Rightarrow> jsval \<Rightarrow> exn + int" where
  "statSync_size fs p =
     (case p of
        JStr s \<Rightarrow> (case fs s of None \<Rightarrow> Inl (ENOENT s) | Some c \<Rightarrow> Inr (int (length c)))
      | _ \<Rightarrow> Inl TypeError)"

text \<open>\<open>Array.prototype.map\<close> with a callback that may raise: the first fault ends it.\<close>

fun map_result :: "('a \<Rightarrow> exn + 'b) \<Rightarrow> 'a list \<Rightarrow> exn + 'b list" where
  "map_result f [] = Inr []"
| "map_result f (x # xs) =
     (case f x of
        Inl e \<Rightarrow> Inl e
      | Inr y \<Rightarrow> (case map_result f xs of Inl e \<Rightarrow> Inl e | Inr ys \<Rightarrow> Inr (y # ys)))"

definition transpileSources :: "env \<Rightarrow> string list \<Rightarrow> exn + string list" where
  "transpileSources E srcs = map_result (transpile E) srcs"

definition logError :: "string \<Rightarrow> world \<Rightarrow> world" where
  "logError s w = w\<lparr>errlog := errlog w @ [s]\<rparr>"

text \<open>String conversion of a property value in a template literal.\<close>

definition template :: "env \<Rightarrow> jsval \<Rightarrow> string" where
  "template E v =
     (case v of JStr s \<Rightarrow> s | JUndefined \<Rightarrow> ''undefined'' | _ \<Rightarrow> to_string E v)"

section \<open>File names and constants of \<open>compile\<close>\<close>

definition kpsFileName :: "string \<Rightarrow> string" where
  "kpsFileName model_id = ''../source/'' @ model_id @ ''.model.kps''"

definition kmpFileName :: "string \<Rightarrow> string" where
  "kmpFileName model_id = model_id @ ''.model.kmp''"

definition modelFileName :: "string \<Rightarrow> string" where
  "modelFileName model_id = model_id @ ''.model.js''"

definition modelInfoFileName :: "string \<Rightarrow> string" where
  "modelInfoFileName model_id = model_id @ ''.model_info''"

definition sourcePath :: string where
  "sourcePath = ''../source''"

definition minKeymanVersion :: string where
  "minKeymanVersion = ''12.0''"

definition filePrefix :: string where
  "filePrefix = ''(function() {'' @ NL @ '''use strict';'' @ NL"

definition funcPrefix :: string where
  "funcPrefix = ''com.keyman.lexicalModel.register(''"

definition funcSuffix :: string where
  "funcSuffix = '');''"

definition fileSuffix :: string where
  "fileSuffix = ''})();''"

section \<open>The stages of \<open>compile\<close>\<close>

subsection \<open>Model identity (lines 23 to 38 and 78 to 90)\<close>

definition find_model_info :: "string list \<Rightarrow> string option" where
  "find_model_info fs = List.find is_model_info fs"

definition invalid_id_message :: "string \<Rightarrow> string" where
  "invalid_id_message model_id =
     ''The model identifier '' @ [CHR 0x27] @ model_id @ [CHR 0x27] @ '' is invalid.'' @ NL @
     ''Must be a valid alphanumeric identifier in format (author).(bcp_47).(uniq).'' @ NL @
     ''bcp_47 should be underscore (_) separated.''"

text \<open>Indexing the \<open>null\<close> of a failed match raises a TypeError.\<close>

definition resolve_model_id :: "string \<Rightarrow> failure + string" where
  "resolve_model_id model_info_file =
     (case match_stem model_info_file of
        None \<Rightarrow> Inl (Threw TypeError)
      | Some model_id \<Rightarrow>
          if \<not> MODEL_ID_PATTERN model_id then Inl (Logged (invalid_id_message model_id))
          else Inr model_id)"

definition load_model_info :: "env \<Rightarrow> (string \<rightharpoonup> string) \<Rightarrow> string \<Rightarrow> exn + obj" where
  "load_model_info E fs model_info_file =
     (case readFileSync fs (''../'' @ model_info_file) of
        Inl e \<Rightarrow> Inl e
      | Inr text \<Rightarrow> json_parse E text)"

definition path_mismatch_message :: "string list \<Rightarrow> string \<Rightarrow> string" where
  "path_mismatch_message paths model_id =
     ''Unexpected model path '' @ str_of (at paths 2) @ ''.'' @ str_of (at paths 1) @
     '', does not match model id '' @ model_id"

text \<open>The result is \<open>(groupPath, authorPath, bcp47Path)\<close>.\<close>

definition check_paths :: "char \<Rightarrow> string \<Rightarrow> string \<Rightarrow> failure + (string \<times> string \<times> string)" where
  "check_paths sp wd model_id =
     (let paths = rev (split sp wd) in
      if length paths < 4 \<or> at paths 0 \<noteq> Some ''build''
         \<or> model_id \<noteq> str_of (at paths 2) @ ''.'' @ str_of (at paths 1)
      then Inl (Logged (path_mismatch_message paths model_id))
      else Inr (paths ! 3, paths ! 2, paths ! 1))"

subsection \<open>Source aggregation (lines 96 to 98)\<close>

definition read_sources :: "env \<Rightarrow> (string \<rightharpoonup> string) \<Rightarrow> string list \<Rightarrow> exn + string list" where
  "read_sources E fs names =
     map_result (\<lambda>source. readFileSync fs (path_join E sourcePath source)) names"

text \<open>The same callback on an element of an array that came without a type: \<open>path.join\<close>
  raises a TypeError on an element that is not a string.\<close>

definition read_source_value :: "env \<Rightarrow> (string \<rightharpoonup> string) \<Rightarrow> jsval \<Rightarrow> exn + string" where
  "read_source_value E fs source =
     (case source of
        JStr name \<Rightarrow> readFileSync fs (path_join E sourcePath name)
      | _ \<Rightarrow> Inl TypeError)"

subsection \<open>Format code generation (lines 103 to 131)\<close>

text \<open>The result is the text of \<open>func\<close> after the \<open>switch\<close>. In the branch of
  \<open>fst-foma-1.0\<close> the descriptor receives its \<open>fst\<close> field before the refusal.\<close>

definition emit_model :: "env \<Rightarrow> model_source \<Rightarrow> compiled \<Rightarrow> string list \<Rightarrow> failure + string" where
  "emit_model E modelSource oc texts =
     (if format modelSource = ''custom-1.0'' then
        (case transpileSources E texts of
           Inl e \<Rightarrow> Inl (Threw e)
         | Inr outs \<Rightarrow>
             Inr (filePrefix @ funcPrefix @ funcSuffix @ NL @ join NL outs @
                  ''LMLayerWorker.loadModel(new '' @ str_of (rootClass modelSource) @ ''());'' @ NL))
      else if format modelSource = ''fst-foma-1.0'' then
        (let oc' = oc\<lparr>oc_fst := Some (base64 E (join [] texts))\<rparr> in
         Inl (Logged (''Unimplemented model format '' @ format modelSource)))
      else if format modelSource = ''trie-1.0'' then
        (case createTrieDataStructure E texts of
           Inl e \<Rightarrow> Inl (Threw e)
         | Inr trie \<Rightarrow>
             Inr (filePrefix @ ''var model = {};'' @ NL @
                  ''model.backingData = '' @ trie @ '';'' @ NL @
                  ''LMLayerWorker.loadModel(new models.WordListModel(model.backingData));'' @ NL))
      else Inl (Logged (''Unknown model format '' @ format modelSource)))"

subsection \<open>Word breaking (lines 137 to 156)\<close>

text \<open>\<open>delete oc.wordBreaking.sources\<close>: the object that \<open>oc.wordBreaking\<close> refers to loses
  the property.\<close>

definition delete_sources :: "compiled \<Rightarrow> (nat \<Rightarrow> obj) \<Rightarrow> exn + (nat \<Rightarrow> obj)" where
  "delete_sources oc hp =
     (case oc_wordBreaking oc of
        None \<Rightarrow> Inl TypeError
      | Some a \<Rightarrow> Inr (hp(a := delete_prop ''sources'' (hp a))))"

text \<open>The first \<open>if\<close> inside: the result is \<open>wordBreakingSource\<close> (\<open>None\<close> when it stays
  \<open>undefined\<close>) and the heap.\<close>

definition load_word_breaking_sources ::
  "env \<Rightarrow> compiled \<Rightarrow> (string \<rightharpoonup> string) \<Rightarrow> (nat \<Rightarrow> obj) \<Rightarrow> nat \<Rightarrow> exn + (string option \<times> (nat \<Rightarrow> obj))" where
  "load_word_breaking_sources E oc fs hp wb =
     (if truthy (get_prop (hp wb) ''sources'') then
        (case as_array (get_prop (hp wb) ''sources'') of
           None \<Rightarrow> Inl TypeError
         | Some elements \<Rightarrow>
            (case map_result (read_source_value E fs) elements of
               Inl e \<Rightarrow> Inl e
             | Inr wordBreakingSources \<Rightarrow>
                (case transpileSources E wordBreakingSources of
                   Inl e \<Rightarrow> Inl e
                 | Inr outs \<Rightarrow>
                    (case delete_sources oc hp of
                       Inl e \<Rightarrow> Inl e
                     | Inr hp' \<Rightarrow> Inr (Some (join NL outs), hp')))))
      else Inr (None, hp))"

text \<open>\<open>JSON.stringify(oc.wordBreaking)\<close> reads the object through \<open>oc\<close>.\<close>

definition oc_wordBreaking_value :: "compiled \<Rightarrow> (nat \<Rightarrow> obj) \<Rightarrow> jsval" where
  "oc_wordBreaking_value oc hp =
     (case oc_wordBreaking oc of None \<Rightarrow> JUndefined | Some a \<Rightarrow> JObj (hp a))"

text \<open>The result is the text appended to \<open>func\<close> and the heap.\<close>

definition emit_word_breaking ::
  "env \<Rightarrow> model_source \<Rightarrow> compiled \<Rightarrow> (string \<rightharpoonup> string) \<Rightarrow> (nat \<Rightarrow> obj) \<Rightarrow> exn + (string \<times> (nat \<Rightarrow> obj))" where
  "emit_word_breaking E modelSource oc fs hp =
     (case wordBreaking modelSource of
        None \<Rightarrow> Inr ([], hp)
      | Some wb \<Rightarrow>
         (case load_word_breaking_sources E oc fs hp wb of
            Inl e \<Rightarrow> Inl e
          | Inr (wordBreakingSource, hp') \<Rightarrow>
             (case wordBreakingSource of
                None \<Rightarrow>
                  Inr (''LMLayerWorker.loadWordBreaker(new DefaultWordBreaker('' @
                       json_stringify E (oc_wordBreaking_value oc hp') @ ''));'' @ NL, hp')
              | Some s \<Rightarrow>
                  if s \<noteq> [] then
                    Inr (NL @ s @ NL @
                         ''LMLayerWorker.loadWordBreaker(new '' @
                         template E (get_prop (hp' wb) ''rootClass'') @ ''());'' @ NL, hp')
                  else
                    Inr (''LMLayerWorker.loadWordBreaker(new DefaultWordBreaker('' @
                         json_stringify E (oc_wordBreaking_value oc hp') @ ''));'' @ NL, hp'))))"

subsection \<open>The script (lines 19 to 158)\<close>

record script =
  s_model_id :: string
  s_model_info :: obj
  s_groupPath :: string
  s_authorPath :: string
  s_bcp47Path :: string
  s_func :: string
  s_heap :: "nat \<Rightarrow> obj"

definition build_script :: "env \<Rightarrow> model_source \<Rightarrow> world \<Rightarrow> failure + script" where
  "build_script E modelSource w =
     (case find_model_info (parent_dir w) of
        None \<Rightarrow> Inl (Logged ''Unable to find .model_info file in parent folder'')
      | Some model_info_file \<Rightarrow>
     (case resolve_model_id model_info_file of
        Inl f \<Rightarrow> Inl f
      | Inr model_id \<Rightarrow>
     (case load_model_info E (files w) model_info_file of
        Inl e \<Rightarrow> Inl (Threw e)
      | Inr model_info \<Rightarrow>
     (case check_paths (sep E) (cwd w) model_id of
        Inl f \<Rightarrow> Inl f
      | Inr (groupPath, authorPath, bcp47Path) \<Rightarrow>
     (case read_sources E (files w) (sources modelSource) of
        Inl e \<Rightarrow> Inl (Threw e)
      | Inr texts \<Rightarrow>
     (let oc = \<lparr>oc_id = model_id, oc_format = format modelSource,
                oc_wordBreaking = wordBreaking modelSource, oc_fst = None\<rparr> in
     (case emit_model E modelSource oc texts of
        Inl f \<Rightarrow> Inl f
      | Inr func \<Rightarrow>
     (case emit_word_breaking E modelSource oc (files w) (heap w) of
        Inl e \<Rightarrow> Inl (Threw e)
      | Inr (wb_text, hp) \<Rightarrow>
          Inr \<lparr>s_model_id = model_id, s_model_info = model_info, s_groupPath = groupPath,
               s_authorPath = authorPath, s_bcp47Path = bcp47Path,
               s_func = func @ wb_text @ fileSuffix, s_heap = hp\<rparr>))))))))"

subsection \<open>Package (lines 168 to 171)\<close>

text \<open>
  Modelled from the spec: the effect of \<open>KmpCompiler.buildKmpFile\<close> on the files
  (kmp-compiler.ts is not among the sources), which is to write the package archive to the
  file name it is given.
\<close>

definition build_package ::
  "env \<Rightarrow> string \<Rightarrow> (string \<rightharpoonup> string) \<Rightarrow> exn + (kmp_json \<times> (string \<rightharpoonup> string))" where
  "build_package E model_id fs =
     (case readFileSync fs (kpsFileName model_id) of
        Inl e \<Rightarrow> Inl e
      | Inr kpsString \<Rightarrow>
         (case transformKpsToKmpObject E model_id kpsString of
            Inl e \<Rightarrow> Inl e
          | Inr kmpJsonData \<Rightarrow>
             (case buildKmpFile E kmpJsonData fs of
                Inl e \<Rightarrow> Inl e
              | Inr archive \<Rightarrow> Inr (kmpJsonData, fs(kmpFileName model_id \<mapsto> archive)))))"

subsection \<open>Manifest merge (lines 180 to 194)\<close>

definition kmp_languages :: "kmp_json \<Rightarrow> jsval" where
  "kmp_languages k = JArr (map (\<lambda>e. JArr (map JStr e)) (lexicalModels k))"

definition kmp_includes :: "kmp_json \<Rightarrow> jsval" where
  "kmp_includes k =
     (if length (filter is_font (kmp_files k)) \<noteq> 0 then JArr [JStr ''fonts''] else JArr [])"

text \<open>\<open>model_info.k = model_info.k || d\<close>.\<close>

definition assign_or :: "string \<Rightarrow> jsval \<Rightarrow> obj \<Rightarrow> obj" where
  "assign_or k d ob = assign k (js_or (get_prop ob k) d) ob"

definition merge_model_info ::
  "string \<Rightarrow> (string \<rightharpoonup> string) \<Rightarrow> string \<Rightarrow> kmp_json \<Rightarrow> string \<Rightarrow> string \<Rightarrow> string \<Rightarrow> obj \<Rightarrow> exn + obj" where
  "merge_model_info now fs model_id kmpJsonData groupPath authorPath bcp47Path model_info0 =
     (let model_info = assign ''id'' (JStr model_id) model_info0;
          model_info = assign_or ''name'' (info_name_description kmpJsonData) model_info;
          model_info = assign_or ''authorName'' (info_author_description kmpJsonData) model_info;
          model_info = assign_or ''authorEmail'' (info_author_url kmpJsonData) model_info;
          model_info = assign_or ''languages'' (kmp_languages kmpJsonData) model_info;
          model_info = assign_or ''lastModifiedDate'' (JStr now) model_info;
          model_info = assign_or ''packageFilename'' (JStr (kmpFileName model_id)) model_info
      in case statSync_size fs (get_prop model_info ''packageFilename'') of
           Inl e \<Rightarrow> Inl e
         | Inr package_size \<Rightarrow>
     (let model_info = assign ''packageFileSize'' (JNum package_size) model_info;
          model_info = assign_or ''jsFilename'' (JStr (modelFileName model_id)) model_info
      in case statSync_size fs (get_prop model_info ''jsFilename'') of
           Inl e \<Rightarrow> Inl e
         | Inr js_size \<Rightarrow>
     (let model_info = assign ''jsFileSize'' (JNum js_size) model_info;
          model_info = assign ''packageIncludes'' (kmp_includes kmpJsonData) model_info;
          model_info = assign_or ''version'' (info_version_description kmpJsonData) model_info;
          model_info = assign_or ''minKeymanVersion'' (JStr minKeymanVersion) model_info;
          model_info = assign_or ''sourcePath''
                         (JStr (join ''/'' [groupPath, authorPath, bcp47Path])) model_info
      in Inr model_info)))"

section \<open>\<open>LexicalModelCompiler.compile\<close>\<close>

text \<open>
  The script is written once its text is complete (line 162), then the package is built
  and its archive written, then the manifest is merged and written (line 196). A fault
  raised after the script was written leaves what was written. A write itself does not
  fail in the model.
\<close>

definition compile :: "env \<Rightarrow> model_source \<Rightarrow> world \<Rightarrow> outcome \<times> world" where
  "compile E modelSource w =
     (case build_script E modelSource w of
        Inl (Logged s) \<Rightarrow> (Failed, logError s w)
      | Inl (Threw e) \<Rightarrow> (Thrown e, w)
      | Inr r \<Rightarrow>
         (let model_id = s_model_id r;
              w1 = w\<lparr>heap := s_heap r, files := (files w)(modelFileName model_id \<mapsto> s_func r)\<rparr>
          in case build_package E model_id (files w1) of
               Inl e \<Rightarrow> (Thrown e, w1)
             | Inr (kmpJsonData, fs2) \<Rightarrow>
                (let w2 = w1\<lparr>files := fs2\<rparr>
                 in case merge_model_info (toISOString_now E) fs2 model_id kmpJsonData
                           (s_groupPath r) (s_authorPath r) (s_bcp47Path r) (s_model_info r) of
                      Inl e \<Rightarrow> (Thrown e, w2)
                    | Inr merged \<Rightarrow>
                        (Completed,
                         w2\<lparr>files := fs2(modelInfoFileName model_id \<mapsto>
                                          json_stringify_pretty E (JObj merged))\<rparr>))))"

text \<open>
  The manifest object that \<open>compile\<close> hands to \<open>JSON.stringify\<close> at line 196, with the
  model identifier and the files as they are at that point; \<open>None\<close> when \<open>compile\<close> does
  not get there.
\<close>

definition merged_manifest ::
  "env \<Rightarrow> model_source \<Rightarrow> world \<Rightarrow> (string \<times> obj \<times> (string \<rightharpoonup> string)) option" where
  "merged_manifest E modelSource w =
     (case build_script E modelSource w of
        Inl f \<Rightarrow> None
      | Inr r \<Rightarrow>
         (case build_package E (s_model_id r) ((files w)(modelFileName (s_model_id r) \<mapsto> s_func r)) of
            Inl e \<Rightarrow> None
          | Inr (kmpJsonData, fs2) \<Rightarrow>
             (case merge_model_info (toISOString_now E) fs2 (s_model_id r) kmpJsonData
                     (s_groupPath r) (s_authorPath r) (s_bcp47Path r) (s_model_info r) of
                Inl e \<Rightarrow> None
              | Inr merged \<Rightarrow> Some (s_model_id r, merged, fs2))))"



section \<open>A concrete build\<close>

text \<open>
  The build of the model \<open>demo.en.sample\<close> from \<open>/group/demo/en.sample/build\<close>, with
  collaborators that are as simple as they can be: the transpiler returns its input, the
  trie builder an empty object literal, the package compiler a fixed descriptor and a
  two-byte archive, the JSON parser knows the two info files below.
\<close>

definition demo_kmp :: kmp_json where
  "demo_kmp =
     \<lparr>info_name_description = JStr ''Demo'', info_author_description = JStr ''Author'',
      info_author_url = JStr ''mailto:nobody@example.com'', info_version_description = JStr ''1.0'',
      lexicalModels = [[''en'']], kmp_files = [''demo.en.sample.model.js'']\<rparr>"

definition authored_text :: string where
  "authored_text = ''{'' @ [CHR 0x22] @ ''packageFilename'' @ [CHR 0x22] @ '':'' @
                   [CHR 0x22] @ ''old.kmp'' @ [CHR 0x22] @ ''}''"

definition demo_env :: env where
  "demo_env =
     \<lparr>sep = CHR ''/'', path_join = (\<lambda>a b. a @ ''/'' @ b), transpile = (\<lambda>s. Inr s),
      createTrieDataStructure = (\<lambda>ss. Inr ''{}''),
      transformKpsToKmpObject = (\<lambda>model_id kps. Inr demo_kmp),
      buildKmpFile = (\<lambda>k fs. Inr ''PK''),
      json_parse = (\<lambda>s. if s = ''{}'' then Inr []
                          else if s = authored_text then Inr [(''packageFilename'', JStr ''old.kmp'')]
                          else Inl (Raised ''SyntaxError'')),
      json_stringify = (\<lambda>v. ''{}''), json_stringify_pretty = (\<lambda>v. ''{}''),
      toISOString_now = ''2019-01-01T00:00:00.000Z'', base64 = (\<lambda>s. s),
      to_string = (\<lambda>v. ''[object Object]'')\<rparr>"

definition demo_files :: "string \<rightharpoonup> string" where
  "demo_files =
     [''../demo.en.sample.model_info'' \<mapsto> ''{}'',
      ''../other.en.sample.model_info'' \<mapsto> ''{}'',
      ''../source/wordlist.tsv'' \<mapsto> ''hello'',
      ''../source/model.ts'' \<mapsto> ''class Model {}'',
      ''../source/extra.ts'' \<mapsto> ''var extra;'',
      ''../source/wb.ts'' \<mapsto> ''class WB {}'',
      ''../source/demo.en.sample.model.kps'' \<mapsto> ''<Package/>'']"

definition demo_world :: world where
  "demo_world =
     \<lparr>parent_dir = [''demo.en.sample.model_info'', ''source''],
      files = demo_files, cwd = ''/group/demo/en.sample/build'',
      heap = (\<lambda>a. [])(0 := [(''sources'', JArr [JStr ''wb.ts'']), (''rootClass'', JStr ''WB'')]),
      errlog = []\<rparr>"

text \<open>\<open>{format: 'trie-1.0', sources: ['wordlist.tsv'], wordBreaking: {sources: ['wb.ts'],
  rootClass: 'WB'}}\<close>, the word-breaking object at address 0.\<close>

definition demo_source :: model_source where
  "demo_source =
     \<lparr>format = ''trie-1.0'', sources = [''wordlist.tsv''], rootClass = None,
      wordBreaking = Some 0\<rparr>"

definition custom_source :: model_source where
  "custom_source =
     \<lparr>format = ''custom-1.0'', sources = [''model.ts'', ''extra.ts''], rootClass = Some ''Model'',
      wordBreaking = None\<rparr>"

definition fst_source :: model_source where
  "fst_source =
     \<lparr>format = ''fst-foma-1.0'', sources = [''wordlist.tsv''], rootClass = None,
      wordBreaking = None\<rparr>"

text \<open>Variations of the build: the info file of another model beside the build directory; two
  info files; none; one named \<open>.model_info\<close>; one with an invalid identifier; an info file that
  names an older package file.\<close>

definition mismatch_world :: world where
  "mismatch_world = demo_world\<lparr>parent_dir := [''other.en.sample.model_info'', ''source'']\<rparr>"

definition two_info_world :: world where
  "two_info_world =
     demo_world\<lparr>parent_dir := [''demo.en.sample.model_info'', ''other.en.sample.model_info'', ''source'']\<rparr>"

definition no_info_world :: world where
  "no_info_world = demo_world\<lparr>parent_dir := [''source'']\<rparr>"

definition dotfile_world :: world where
  "dotfile_world = demo_world\<lparr>parent_dir := [''.model_info'', ''source'']\<rparr>"

definition invalid_id_world :: world where
  "invalid_id_world = demo_world\<lparr>parent_dir := [''Demo.en.sample.model_info'', ''source'']\<rparr>"

definition authored_world :: world where
  "authored_world =
     demo_world\<lparr>files := demo_files(''../demo.en.sample.model_info'' \<mapsto> authored_text,
                                        ''old.kmp'' \<mapsto> ''1234567'')\<rparr>"

text \<open>A manifest with every field filled in by its author, for the model \<open>demo.en.sample\<close>
  and the files \<open>demo_sizes\<close>.\<close>

definition demo_sizes :: "string \<rightharpoonup> string" where
  "demo_sizes = [''demo.en.sample.model.kmp'' \<mapsto> ''PK'', ''demo.en.sample.model.js'' \<mapsto> ''abc'']"

definition full_info :: "string \<Rightarrow> obj" where
  "full_info ident =
     [(''id'', JStr ident), (''name'', JStr ''Demo''), (''license'', JStr ''mit''),
      (''version'', JStr ''1.0''), (''languages'', JArr [JStr ''en'']),
      (''authorName'', JStr ''Author''), (''authorEmail'', JStr ''nobody@example.com''),
      (''description'', JStr ''Example wordlist model''),
      (''lastModifiedDate'', JStr ''2018-12-31T00:00:00.000Z''),
      (''packageFilename'', JStr ''demo.en.sample.model.kmp''), (''packageFileSize'', JNum 2),
      (''jsFilename'', JStr ''demo.en.sample.model.js''), (''jsFileSize'', JNum 3),
      (''packageIncludes'', JArr []), (''minKeymanVersion'', JStr ''12.0''),
      (''sourcePath'', JStr ''group/demo/en.sample'')]"




definition authored_info :: obj where
  "authored_info = [(''id'', JStr ''mine''), (''packageIncludes'', JArr [JStr ''fonts''])]"

section \<open>Properties\<close>

subsection \<open>Splitting and joining\<close>

text \<open>Joining the segments of a split with the separator gives the string back.\<close>

lemma split_acc_join:
  "join [c] (split_acc c acc s) = rev acc @ s"
proof (induction s arbitrary: acc)
  case Nil
  then show ?case by simp
next
  case (Cons x xs)
  have ne: "split_acc c a xs \<noteq> []" for a
    by (induction xs arbitrary: a) auto
  show ?case
  proof (cases "x = c")
    case True
    obtain y ys where "split_acc c [] xs = y # ys" using ne[of "[]"] by (cases "split_acc c [] xs") auto
    with Cons.IH[of "[]"] True show ?thesis by simp
  next
    case False
    with Cons.IH[of "x # acc"] show ?thesis by simp
  qed
qed

lemma join_split: "join [c] (split c s) = s"
  by (simp add: split_def split_acc_join)

subsection \<open>The regular expressions\<close>

text \<open>The matcher of \<open>MODEL_ID_PATTERN\<close> accepts exactly the strings of the shape that the
  pattern describes: three segments joined by dots.\<close>

lemma dot_not_id_rest: "\<not> id_rest CHR ''.''"
  by (simp add: id_rest_def)

lemma match_segment_before_dot:
  assumes "segment_shape a"
  shows "match_segment (a @ CHR ''.'' # rest) = Some (CHR ''.'' # rest)"
proof -
  from assms obtain c cs where a: "a = c # cs" "id_first c" "list_all id_rest cs"
    by (auto simp: segment_shape_def split: list.splits)
  then have "dropWhile id_rest (cs @ CHR ''.'' # rest) = dropWhile id_rest (CHR ''.'' # rest)"
    by (intro dropWhile_append2) (simp add: list_all_iff)
  with a show ?thesis by (simp add: dot_not_id_rest)
qed

lemma match_segment_at_end:
  assumes "segment_shape a"
  shows "match_segment a = Some []"
  using assms by (auto simp: segment_shape_def list_all_iff split: list.splits)

lemma match_segment_Some:
  assumes "match_segment s = Some r"
  shows "\<exists>a. segment_shape a \<and> s = a @ r"
proof -
  from assms obtain c cs where s: "s = c # cs" "id_first c" "r = dropWhile id_rest cs"
    by (cases s) (auto split: if_splits)
  let ?a = "c # takeWhile id_rest cs"
  have "segment_shape ?a"
    using s(2) by (auto simp: segment_shape_def list_all_iff dest: set_takeWhileD)
  moreover have "s = ?a @ r" using s by simp
  ultimately show ?thesis by (rule_tac x = ?a in exI) simp
qed

lemma match_dot_Some: "match_dot r = Some r' \<longleftrightarrow> r = CHR ''.'' # r'"
  by (cases r) auto

lemma MODEL_ID_PATTERN_iff: "MODEL_ID_PATTERN s \<longleftrightarrow> identifier_shape s"
proof
  assume "MODEL_ID_PATTERN s"
  then obtain r1 r2 r3 r4 where
    m: "match_segment s = Some r1" "match_dot r1 = Some r2" "match_segment r2 = Some r3"
       "match_dot r3 = Some r4" "match_segment r4 = Some []"
    by (auto simp: MODEL_ID_PATTERN_def split: option.splits)
  from match_segment_Some[OF m(1)] obtain a where a: "segment_shape a" "s = a @ r1" by blast
  from match_segment_Some[OF m(3)] obtain b where b: "segment_shape b" "r2 = b @ r3" by blast
  from match_segment_Some[OF m(5)] obtain c where c: "segment_shape c" "r4 = c @ []" by blast
  from m(2,4) have "r1 = CHR ''.'' # r2" "r3 = CHR ''.'' # r4" by (simp_all add: match_dot_Some)
  with a b c have "s = a @ ''.'' @ b @ ''.'' @ c" by simp
  with a(1) b(1) c(1) show "identifier_shape s"
    unfolding identifier_shape_def
    by (intro exI[where x = a] exI[where x = b] exI[where x = c] conjI)
next
  assume "identifier_shape s"
  then obtain a b c where s: "s = a @ ''.'' @ b @ ''.'' @ c"
    and sh: "segment_shape a" "segment_shape b" "segment_shape c"
    unfolding identifier_shape_def by (elim exE conjE)
  have 1: "match_segment s = Some (CHR ''.'' # b @ CHR ''.'' # c)"
    using match_segment_before_dot[OF sh(1), of "b @ CHR ''.'' # c"] s by simp
  have 2: "match_segment (b @ CHR ''.'' # c) = Some (CHR ''.'' # c)"
    by (rule match_segment_before_dot[OF sh(2)])
  have 3: "match_segment c = Some []" by (rule match_segment_at_end[OF sh(3)])
  show "MODEL_ID_PATTERN s" by (simp add: MODEL_ID_PATTERN_def 1 2 3)
qed

lemma invalid_identifier_examples:
  "\<not> MODEL_ID_PATTERN ''demo..sample''"
  "\<not> MODEL_ID_PATTERN ''Demo.en.sample''"
  "\<not> MODEL_ID_PATTERN ''demo.en''"
  "\<not> MODEL_ID_PATTERN ''demo.en.sample.extra''"
  "MODEL_ID_PATTERN ''demo.en.sample''"
  "MODEL_ID_PATTERN ''_a9.b_c.d0''"
  by code_simp+

text \<open>The stem that \<open>/^(.+)\.model_info$/\<close> captures: what stands before the suffix, when
  it is not empty and holds no line terminator.\<close>

lemma ends_with_iff: "ends_with suf s \<longleftrightarrow> (\<exists>pre. s = pre @ suf)"
proof
  assume "ends_with suf s"
  then have "drop (length s - length suf) s = suf"
    by (simp add: ends_with_def)
  then have "s = take (length s - length suf) s @ suf"
    using append_take_drop_id[of "length s - length suf" s] by simp
  then show "\<exists>pre. s = pre @ suf" by (rule exI)
next
  assume "\<exists>pre. s = pre @ suf"
  then show "ends_with suf s" by (auto simp: ends_with_def)
qed

lemma match_stem_Some:
  "match_stem f = Some stem \<longleftrightarrow>
     f = stem @ ''.model_info'' \<and> stem \<noteq> [] \<and> (\<forall>c\<in>set stem. \<not> line_terminator c)"
proof
  assume m: "match_stem f = Some stem"
  then have e: "ends_with ''.model_info'' f"
    by (simp add: match_stem_def Let_def split: if_splits)
  then obtain pre where f: "f = pre @ ''.model_info''"
    unfolding ends_with_iff by (elim exE)
  then have "take (length f - length ''.model_info'') f = pre" by simp
  with m e f show "f = stem @ ''.model_info'' \<and> stem \<noteq> [] \<and> (\<forall>c\<in>set stem. \<not> line_terminator c)"
    by (simp add: match_stem_def Let_def list_ex_iff split: if_splits)
next
  assume a: "f = stem @ ''.model_info'' \<and> stem \<noteq> [] \<and> (\<forall>c\<in>set stem. \<not> line_terminator c)"
  then have "ends_with ''.model_info'' f" unfolding ends_with_iff by (intro exI[where x = stem]) simp
  moreover from a have "take (length f - length ''.model_info'') f = stem" by simp
  ultimately show "match_stem f = Some stem"
    using a by (simp add: match_stem_def Let_def list_ex_iff)
qed

subsection \<open>What \<open>compile\<close> returns and leaves behind\<close>

lemma file_names_distinct:
  "modelFileName i \<noteq> kmpFileName i" "modelFileName i \<noteq> modelInfoFileName i"
  "kmpFileName i \<noteq> modelInfoFileName i"
  by (simp_all add: modelFileName_def kmpFileName_def modelInfoFileName_def)

lemma compile_Logged:
  "build_script E s w = Inl (Logged m) \<Longrightarrow> compile E s w = (Failed, logError m w)"
  by (simp add: compile_def)

lemma compile_Threw:
  "build_script E s w = Inl (Threw e) \<Longrightarrow> compile E s w = (Thrown e, w)"
  by (simp add: compile_def)

lemma build_package_files:
  "build_package E i fs = Inr (k, fs') \<Longrightarrow> \<exists>archive. fs' = fs(kmpFileName i \<mapsto> archive)"
  by (auto simp: build_package_def split: sum.splits)

lemma compile_script_written:
  assumes "build_script E s w = Inr r"
  shows "files (snd (compile E s w)) (modelFileName (s_model_id r)) = Some (s_func r)"
    and "heap (snd (compile E s w)) = s_heap r"
    and "errlog (snd (compile E s w)) = errlog w"
  using assms file_names_distinct[of "s_model_id r"]
  by (auto simp: compile_def Let_def split: sum.splits prod.splits dest!: build_package_files)

lemma build_script_Inr:
  assumes "build_script E s w = Inr r"
  shows "\<exists>f mi texts func wb.
           find_model_info (parent_dir w) = Some f \<and>
           resolve_model_id f = Inr (s_model_id r) \<and>
           load_model_info E (files w) f = Inr mi \<and>
           check_paths (sep E) (cwd w) (s_model_id r) =
             Inr (s_groupPath r, s_authorPath r, s_bcp47Path r) \<and>
           read_sources E (files w) (sources s) = Inr texts \<and>
           emit_model E s \<lparr>oc_id = s_model_id r, oc_format = format s,
                            oc_wordBreaking = wordBreaking s, oc_fst = None\<rparr> texts = Inr func \<and>
           emit_word_breaking E s \<lparr>oc_id = s_model_id r, oc_format = format s,
                            oc_wordBreaking = wordBreaking s, oc_fst = None\<rparr> (files w) (heap w) =
             Inr (wb, s_heap r) \<and>
           s_model_info r = mi \<and>
           s_func r = func @ wb @ fileSuffix"
  using assms
  by (auto simp: build_script_def Let_def split: option.splits sum.splits prod.splits)

lemma emit_model_prefix:
  "emit_model E s oc texts = Inr func \<Longrightarrow> \<exists>body. func = filePrefix @ body"
  by (auto simp: emit_model_def split: if_splits sum.splits)

lemma map_result_Inr:
  "map_result f xs = Inr ys \<Longrightarrow>
   length ys = length xs \<and> (\<forall>i<length xs. f (xs ! i) = Inr (ys ! i))"
proof (induction xs arbitrary: ys)
  case Nil
  then show ?case by simp
next
  case (Cons x xs)
  from Cons.prems obtain y ys' where y: "f x = Inr y"
    and r: "map_result f xs = Inr ys'" and e: "ys = y # ys'"
    by (auto split: sum.splits)
  from Cons.IH[OF r] have "length ys' = length xs"
    and n: "\<forall>i<length xs. f (xs ! i) = Inr (ys' ! i)" by auto
  then show ?case using y e by (auto simp: nth_Cons split: nat.splits)
qed

lemma demo_builds:
  "\<exists>r. build_script demo_env demo_source demo_world = Inr r"
proof -
  have "case build_script demo_env demo_source demo_world of Inl f \<Rightarrow> False | Inr r \<Rightarrow> True"
    by code_simp
  then show ?thesis by (auto split: sum.splits)
qed

lemma custom_builds:
  "\<exists>r. build_script demo_env custom_source demo_world = Inr r"
proof -
  have "case build_script demo_env custom_source demo_world of Inl f \<Rightarrow> False | Inr r \<Rightarrow> True"
    by code_simp
  then show ?thesis by (auto split: sum.splits)
qed

subsection \<open>The structural identity check\<close>

text \<open>
  Claim C8. Once the info file is found, its identifier is valid and the manifest is loaded,
  the check of the working directory succeeds (with segments 3, 2 and 1 as group, author
  and language paths) exactly when the directory, split on the separator and reversed, has
  at least 4 segments, segment 0 is \<open>build\<close>, and segment 2, a dot and segment 1 make
  the model identifier. For every working directory where this does not hold, \<open>compile\<close>
  returns \<open>false\<close> after logging one error, which names the identifier derived from the
  path (a missing segment reads \<open>undefined\<close>) and the model identifier.
\<close>

theorem structural_identity_check:
  assumes "find_model_info (parent_dir w) = Some f"
    and "resolve_model_id f = Inr model_id"
    and "load_model_info E (files w) f = Inr mi"
  shows "let paths = rev (split (sep E) (cwd w));
             matches = (4 \<le> length paths \<and> paths ! 0 = ''build'' \<and>
                        paths ! 2 @ ''.'' @ paths ! 1 = model_id)
         in (check_paths (sep E) (cwd w) model_id = Inr (paths ! 3, paths ! 2, paths ! 1)) = matches \<and>
            (\<not> matches \<longrightarrow>
               compile E modelSource w =
                 (Failed, logError (''Unexpected model path '' @ str_of (at paths 2) @ ''.'' @
                                    str_of (at paths 1) @ '', does not match model id '' @ model_id) w))"
proof -
  define paths where "paths = rev (split (sep E) (cwd w))"
  define matches where "matches \<longleftrightarrow> 4 \<le> length paths \<and> paths ! 0 = ''build'' \<and>
                        paths ! 2 @ ''.'' @ paths ! 1 = model_id"
  have c: "check_paths (sep E) (cwd w) model_id =
             (if matches then Inr (paths ! 3, paths ! 2, paths ! 1)
              else Inl (Logged (path_mismatch_message paths model_id)))"
    unfolding check_paths_def matches_def paths_def[symmetric] Let_def
    by (auto simp: at_def)
  have "build_script E modelSource w = Inl (Logged (path_mismatch_message paths model_id))"
    if "\<not> matches"
    using that assms c by (simp add: build_script_def)
  then have "compile E modelSource w = (Failed, logError (path_mismatch_message paths model_id) w)"
    if "\<not> matches"
    using that by (simp add: compile_Logged)
  with c show ?thesis
    unfolding Let_def paths_def[symmetric] matches_def[symmetric]
    by (simp add: path_mismatch_message_def)
qed

theorem structural_identity_check_witness:
  "find_model_info (parent_dir mismatch_world) = Some ''other.en.sample.model_info'' \<and>
   resolve_model_id ''other.en.sample.model_info'' = Inr ''other.en.sample'' \<and>
   rev (split (sep demo_env) (cwd mismatch_world)) =
     [''build'', ''en.sample'', ''demo'', ''group'', []] \<and>
   check_paths (sep demo_env) (cwd mismatch_world) ''other.en.sample'' \<noteq>
     Inr (''group'', ''demo'', ''en.sample'') \<and>
   compile demo_env demo_source mismatch_world =
     (Failed,
      logError ''Unexpected model path demo.en.sample, does not match model id other.en.sample''
        mismatch_world)"
proof -
  have h1: "find_model_info (parent_dir mismatch_world) = Some ''other.en.sample.model_info''"
    by code_simp
  have h2: "resolve_model_id ''other.en.sample.model_info'' = Inr ''other.en.sample''"
    by code_simp
  have h3: "load_model_info demo_env (files mismatch_world) ''other.en.sample.model_info'' = Inr []"
    by code_simp
  have p: "rev (split (sep demo_env) (cwd mismatch_world)) =
             [''build'', ''en.sample'', ''demo'', ''group'', []]"
    by code_simp
  from structural_identity_check[OF h1 h2 h3, of demo_source] h1 h2 p show ?thesis
    by (simp add: Let_def at_def)
qed

subsection \<open>The framing of the script\<close>

text \<open>
  Claim C10. Whenever \<open>compile\<close> gets as far as writing a script (every stage up to the end
  of the word-breaking stage passed, whatever the format branch and with or without
  word breaking), the text it writes to the script file begins with the strict-mode
  prologue, which is \<open>(function() {\<close>, a line break, \<open>'use strict';\<close> and a line break,
  and ends with the epilogue \<open>})();\<close>; and that text is what the script file holds when
  \<open>compile\<close> returns.
\<close>

theorem script_is_wrapped:
  assumes "build_script E modelSource w = Inr r"
  shows "(\<exists>body. s_func r =
            ''(function() {'' @ [CHR 0x0A] @ '''use strict';'' @ [CHR 0x0A] @ body @ ''})();'') \<and>
         files (snd (compile E modelSource w)) (modelFileName (s_model_id r)) = Some (s_func r)"
proof -
  from build_script_Inr[OF assms] obtain func wb texts where
    em: "emit_model E modelSource \<lparr>oc_id = s_model_id r, oc_format = format modelSource,
           oc_wordBreaking = wordBreaking modelSource, oc_fst = None\<rparr> texts = Inr func"
    and f: "s_func r = func @ wb @ fileSuffix"
    by blast
  from emit_model_prefix[OF em] obtain body where "func = filePrefix @ body" by blast
  with f have "s_func r =
      ''(function() {'' @ [CHR 0x0A] @ '''use strict';'' @ [CHR 0x0A] @ (body @ wb) @ ''})();''"
    by (simp add: filePrefix_def fileSuffix_def NL_def)
  then have "\<exists>body. s_func r =
      ''(function() {'' @ [CHR 0x0A] @ '''use strict';'' @ [CHR 0x0A] @ body @ ''})();''"
    by (rule exI[where x = "body @ wb"])
  with compile_script_written(1)[OF assms] show ?thesis by (rule conjI[rotated])
qed

theorem script_is_wrapped_witness:
  "(\<exists>r. build_script demo_env demo_source demo_world = Inr r \<and>
        (\<exists>body. s_func r =
           ''(function() {'' @ [CHR 0x0A] @ '''use strict';'' @ [CHR 0x0A] @ body @ ''})();'') \<and>
        files (snd (compile demo_env demo_source demo_world)) (modelFileName (s_model_id r)) =
          Some (s_func r)) \<and>
   files (snd (compile demo_env demo_source demo_world)) ''demo.en.sample.model.js'' =
     Some (''(function() {'' @ [CHR 0x0A] @ '''use strict';'' @ [CHR 0x0A] @
           ''var model = {};'' @ [CHR 0x0A] @
           ''model.backingData = {};'' @ [CHR 0x0A] @
           ''LMLayerWorker.loadModel(new models.WordListModel(model.backingData));'' @ [CHR 0x0A] @
           [CHR 0x0A] @ ''class WB {}'' @ [CHR 0x0A] @
           ''LMLayerWorker.loadWordBreaker(new WB());'' @ [CHR 0x0A] @
           ''})();'') \<and>
   files (snd (compile demo_env custom_source demo_world)) ''demo.en.sample.model.js'' =
     Some (''(function() {'' @ [CHR 0x0A] @ '''use strict';'' @ [CHR 0x0A] @
           ''com.keyman.lexicalModel.register();'' @ [CHR 0x0A] @
           ''class Model {}'' @ [CHR 0x0A] @ ''var extra;'' @
           ''LMLayerWorker.loadModel(new Model());'' @ [CHR 0x0A] @
           ''})();'')"
proof -
  from demo_builds obtain r where r: "build_script demo_env demo_source demo_world = Inr r"
    by (rule exE)
  note t = script_is_wrapped[OF r]
  have "build_script demo_env demo_source demo_world = Inr r \<and>
        (\<exists>body. s_func r =
           ''(function() {'' @ [CHR 0x0A] @ '''use strict';'' @ [CHR 0x0A] @ body @ ''})();'') \<and>
        files (snd (compile demo_env demo_source demo_world)) (modelFileName (s_model_id r)) =
          Some (s_func r)"
    using r t by (rule conjI)
  then have a: "\<exists>r. build_script demo_env demo_source demo_world = Inr r \<and>
        (\<exists>body. s_func r =
           ''(function() {'' @ [CHR 0x0A] @ '''use strict';'' @ [CHR 0x0A] @ body @ ''})();'') \<and>
        files (snd (compile demo_env demo_source demo_world)) (modelFileName (s_model_id r)) =
          Some (s_func r)"
    by (rule exI[where x = r])
  have b: "files (snd (compile demo_env demo_source demo_world)) ''demo.en.sample.model.js'' =
     Some (''(function() {'' @ [CHR 0x0A] @ '''use strict';'' @ [CHR 0x0A] @
           ''var model = {};'' @ [CHR 0x0A] @
           ''model.backingData = {};'' @ [CHR 0x0A] @
           ''LMLayerWorker.loadModel(new models.WordListModel(model.backingData));'' @ [CHR 0x0A] @
           [CHR 0x0A] @ ''class WB {}'' @ [CHR 0x0A] @
           ''LMLayerWorker.loadWordBreaker(new WB());'' @ [CHR 0x0A] @
           ''})();'')"
    by code_simp
  have c: "files (snd (compile demo_env custom_source demo_world)) ''demo.en.sample.model.js'' =
     Some (''(function() {'' @ [CHR 0x0A] @ '''use strict';'' @ [CHR 0x0A] @
           ''com.keyman.lexicalModel.register();'' @ [CHR 0x0A] @
           ''class Model {}'' @ [CHR 0x0A] @ ''var extra;'' @
           ''LMLayerWorker.loadModel(new Model());'' @ [CHR 0x0A] @
           ''})();'')"
    by code_simp
  from a b c show ?thesis by (intro conjI)
qed

subsection \<open>The script of a custom model\<close>

lemma emit_model_custom:
  assumes "format s = ''custom-1.0''" and "emit_model E s oc texts = Inr func"
  shows "\<exists>outs. map_result (transpile E) texts = Inr outs \<and>
           func = filePrefix @ ''com.keyman.lexicalModel.register();'' @ NL @ join NL outs @
                  ''LMLayerWorker.loadModel(new '' @ str_of (rootClass s) @ ''());'' @ NL"
  using assms
  by (auto simp: emit_model_def transpileSources_def funcPrefix_def funcSuffix_def split: sum.splits)

lemma emit_word_breaking_absent:
  "wordBreaking s = None \<Longrightarrow> emit_word_breaking E s oc fs hp = Inr (wb, hp') \<Longrightarrow> wb = [] \<and> hp' = hp"
  by (simp add: emit_word_breaking_def)

text \<open>
  Claim C6. For a model source of format \<open>custom-1.0\<close> and every list of sources, the script
  that \<open>compile\<close> writes is the prologue, then the one registration call with an empty
  argument list, a line break, the transpiled texts of the source files joined by line
  breaks in the order of the \<open>sources\<close> list (text \<open>i\<close> is read from source \<open>i\<close>, output
  \<open>i\<close> is the transpilation of text \<open>i\<close>), then the invocation that loads a new instance of
  the declared root class, then what the word-breaking stage adds (nothing when the source
  declares no word breaking) and the epilogue.
\<close>

theorem custom_script_contents:
  assumes "format modelSource = ''custom-1.0''"
    and "build_script E modelSource w = Inr r"
  shows "\<exists>texts outs wb.
           length texts = length (sources modelSource) \<and>
           length outs = length (sources modelSource) \<and>
           (\<forall>i<length (sources modelSource).
              readFileSync (files w) (path_join E sourcePath (sources modelSource ! i)) = Inr (texts ! i) \<and>
              transpile E (texts ! i) = Inr (outs ! i)) \<and>
           s_func r =
             filePrefix @ ''com.keyman.lexicalModel.register();'' @ NL @ join NL outs @
             ''LMLayerWorker.loadModel(new '' @ str_of (rootClass modelSource) @ ''());'' @ NL @
             wb @ fileSuffix \<and>
           (wordBreaking modelSource = None \<longrightarrow> wb = []) \<and>
           files (snd (compile E modelSource w)) (modelFileName (s_model_id r)) = Some (s_func r)"
proof -
  let ?oc = "\<lparr>oc_id = s_model_id r, oc_format = format modelSource,
              oc_wordBreaking = wordBreaking modelSource, oc_fst = None\<rparr>"
  from build_script_Inr[OF assms(2)] obtain texts func wb where
    rd: "read_sources E (files w) (sources modelSource) = Inr texts"
    and em: "emit_model E modelSource ?oc texts = Inr func"
    and wbk: "emit_word_breaking E modelSource ?oc (files w) (heap w) = Inr (wb, s_heap r)"
    and f: "s_func r = func @ wb @ fileSuffix"
    by blast
  from emit_model_custom[OF assms(1) em] obtain outs where
    tr: "map_result (transpile E) texts = Inr outs"
    and fn: "func = filePrefix @ ''com.keyman.lexicalModel.register();'' @ NL @ join NL outs @
                  ''LMLayerWorker.loadModel(new '' @ str_of (rootClass modelSource) @ ''());'' @ NL"
    by blast
  from map_result_Inr[OF rd[unfolded read_sources_def]]
  have l1: "length texts = length (sources modelSource)"
    and r1: "\<forall>i<length (sources modelSource).
               readFileSync (files w) (path_join E sourcePath (sources modelSource ! i)) = Inr (texts ! i)"
    by auto
  from map_result_Inr[OF tr] l1
  have l2: "length outs = length (sources modelSource)"
    and r2: "\<forall>i<length (sources modelSource). transpile E (texts ! i) = Inr (outs ! i)"
    by auto
  have w0: "wordBreaking modelSource = None \<longrightarrow> wb = []"
    using emit_word_breaking_absent[OF _ wbk] by blast
  from f fn have fn': "s_func r =
             filePrefix @ ''com.keyman.lexicalModel.register();'' @ NL @ join NL outs @
             ''LMLayerWorker.loadModel(new '' @ str_of (rootClass modelSource) @ ''());'' @ NL @
             wb @ fileSuffix" by simp
  note cw = compile_script_written(1)[OF assms(2)]
  show ?thesis
    by (rule exI[where x = texts], rule exI[where x = outs], rule exI[where x = wb])
       (use l1 l2 r1 r2 w0 fn' cw in simp)
qed

theorem custom_script_contents_witness:
  "format custom_source = ''custom-1.0'' \<and>
   files (snd (compile demo_env custom_source demo_world)) ''demo.en.sample.model.js'' =
     Some (filePrefix @ ''com.keyman.lexicalModel.register();'' @ NL @
           ''class Model {}'' @ NL @ ''var extra;'' @
           ''LMLayerWorker.loadModel(new Model());'' @ NL @ fileSuffix) \<and>
   (\<exists>r. build_script demo_env custom_source demo_world = Inr r \<and>
        (\<exists>texts outs wb.
           length texts = length (sources custom_source) \<and>
           length outs = length (sources custom_source) \<and>
           (\<forall>i<length (sources custom_source).
              readFileSync (files demo_world) (path_join demo_env sourcePath (sources custom_source ! i)) =
                Inr (texts ! i) \<and>
              transpile demo_env (texts ! i) = Inr (outs ! i)) \<and>
           s_func r =
             filePrefix @ ''com.keyman.lexicalModel.register();'' @ NL @ join NL outs @
             ''LMLayerWorker.loadModel(new '' @ str_of (rootClass custom_source) @ ''());'' @ NL @
             wb @ fileSuffix \<and>
           (wordBreaking custom_source = None \<longrightarrow> wb = []) \<and>
           files (snd (compile demo_env custom_source demo_world)) (modelFileName (s_model_id r)) =
             Some (s_func r)))"
proof -
  have f: "format custom_source = ''custom-1.0''" by code_simp
  have c: "files (snd (compile demo_env custom_source demo_world)) ''demo.en.sample.model.js'' =
     Some (filePrefix @ ''com.keyman.lexicalModel.register();'' @ NL @
           ''class Model {}'' @ NL @ ''var extra;'' @
           ''LMLayerWorker.loadModel(new Model());'' @ NL @ fileSuffix)"
    by code_simp
  from custom_builds obtain r where r: "build_script demo_env custom_source demo_world = Inr r"
    by (rule exE)
  note t = custom_script_contents[OF f r]
  have "build_script demo_env custom_source demo_world = Inr r \<and>
        (\<exists>texts outs wb.
           length texts = length (sources custom_source) \<and>
           length outs = length (sources custom_source) \<and>
           (\<forall>i<length (sources custom_source).
              readFileSync (files demo_world) (path_join demo_env sourcePath (sources custom_source ! i)) =
                Inr (texts ! i) \<and>
              transpile demo_env (texts ! i) = Inr (outs ! i)) \<and>
           s_func r =
             filePrefix @ ''com.keyman.lexicalModel.register();'' @ NL @ join NL outs @
             ''LMLayerWorker.loadModel(new '' @ str_of (rootClass custom_source) @ ''());'' @ NL @
             wb @ fileSuffix \<and>
           (wordBreaking custom_source = None \<longrightarrow> wb = []) \<and>
           files (snd (compile demo_env custom_source demo_world)) (modelFileName (s_model_id r)) =
             Some (s_func r))"
    using r t by (rule conjI)
  then have "\<exists>r. build_script demo_env custom_source demo_world = Inr r \<and>
        (\<exists>texts outs wb.
           length texts = length (sources custom_source) \<and>
           length outs = length (sources custom_source) \<and>
           (\<forall>i<length (sources custom_source).
              readFileSync (files demo_world) (path_join demo_env sourcePath (sources custom_source ! i)) =
                Inr (texts ! i) \<and>
              transpile demo_env (texts ! i) = Inr (outs ! i)) \<and>
           s_func r =
             filePrefix @ ''com.keyman.lexicalModel.register();'' @ NL @ join NL outs @
             ''LMLayerWorker.loadModel(new '' @ str_of (rootClass custom_source) @ ''());'' @ NL @
             wb @ fileSuffix \<and>
           (wordBreaking custom_source = None \<longrightarrow> wb = []) \<and>
           files (snd (compile demo_env custom_source demo_world)) (modelFileName (s_model_id r)) =
             Some (s_func r))"
    by (rule exI[where x = r])
  with f c show ?thesis by simp
qed

subsection \<open>The format \<open>fst-foma-1.0\<close>\<close>

lemma emit_model_fst:
  "format s = ''fst-foma-1.0'' \<Longrightarrow>
   emit_model E s oc texts = Inl (Logged ''Unimplemented model format fst-foma-1.0'')"
  by (simp add: emit_model_def Let_def)

lemma build_script_fst:
  assumes "format s = ''fst-foma-1.0''"
  shows "\<exists>f. build_script E s w = Inl f"
  using emit_model_fst[OF assms]
  by (auto simp: build_script_def Let_def split: option.splits sum.splits prod.splits)

lemma compile_Inl_frame:
  assumes "build_script E s w = Inl f"
  shows "fst (compile E s w) \<noteq> Completed \<and> files (snd (compile E s w)) = files w \<and>
         heap (snd (compile E s w)) = heap w"
  using assms by (cases f) (simp_all add: compile_def logError_def)

text \<open>
  Claim C5, as amended. For every model source of format \<open>fst-foma-1.0\<close> and every
  environment and state, \<open>compile\<close> does not complete, writes no file and leaves the
  word-breaking objects alone; and whenever the stages before the format switch pass
  (an info file with a valid identifier is found, the manifest loads, the working
  directory matches, the sources are read), it returns \<open>false\<close> after logging
  \<open>Unimplemented model format fst-foma-1.0\<close>.
\<close>

theorem fst_foma_always_refused:
  assumes "format modelSource = ''fst-foma-1.0''"
  shows "fst (compile E modelSource w) \<noteq> Completed \<and>
         files (snd (compile E modelSource w)) = files w \<and>
         heap (snd (compile E modelSource w)) = heap w \<and>
         (\<forall>f model_id mi paths texts.
            find_model_info (parent_dir w) = Some f \<and>
            resolve_model_id f = Inr model_id \<and>
            load_model_info E (files w) f = Inr mi \<and>
            check_paths (sep E) (cwd w) model_id = Inr paths \<and>
            read_sources E (files w) (sources modelSource) = Inr texts \<longrightarrow>
            compile E modelSource w =
              (Failed, logError ''Unimplemented model format fst-foma-1.0'' w))"
proof -
  from build_script_fst[OF assms] obtain f where f: "build_script E modelSource w = Inl f"
    by (rule exE)
  have "compile E modelSource w = (Failed, logError ''Unimplemented model format fst-foma-1.0'' w)"
    if "find_model_info (parent_dir w) = Some f'" "resolve_model_id f' = Inr model_id"
      "load_model_info E (files w) f' = Inr mi" "check_paths (sep E) (cwd w) model_id = Inr paths"
      "read_sources E (files w) (sources modelSource) = Inr texts"
    for f' model_id mi paths texts
  proof -
    have "build_script E modelSource w = Inl (Logged ''Unimplemented model format fst-foma-1.0'')"
      using that emit_model_fst[OF assms]
      by (simp add: build_script_def Let_def split: prod.splits)
    then show ?thesis by (rule compile_Logged)
  qed
  with compile_Inl_frame[OF f] show ?thesis by simp
qed

theorem fst_foma_always_refused_witness:
  "format fst_source = ''fst-foma-1.0'' \<and>
   fst (compile demo_env fst_source demo_world) \<noteq> Completed \<and>
   files (snd (compile demo_env fst_source demo_world)) = files demo_world \<and>
   heap (snd (compile demo_env fst_source demo_world)) = heap demo_world \<and>
   compile demo_env fst_source demo_world =
     (Failed, logError ''Unimplemented model format fst-foma-1.0'' demo_world)"
proof -
  have f: "format fst_source = ''fst-foma-1.0''" by code_simp
  have h1: "find_model_info (parent_dir demo_world) = Some ''demo.en.sample.model_info''"
    by code_simp
  have h2: "resolve_model_id ''demo.en.sample.model_info'' = Inr ''demo.en.sample''"
    by code_simp
  have h3: "load_model_info demo_env (files demo_world) ''demo.en.sample.model_info'' = Inr []"
    by code_simp
  have h4: "check_paths (sep demo_env) (cwd demo_world) ''demo.en.sample'' =
              Inr (''group'', ''demo'', ''en.sample'')"
    by code_simp
  have h5: "read_sources demo_env (files demo_world) (sources fst_source) = Inr [''hello'']"
    by code_simp
  note t = fst_foma_always_refused[OF f, of demo_env demo_world]
  from t have a: "fst (compile demo_env fst_source demo_world) \<noteq> Completed"
    and b: "files (snd (compile demo_env fst_source demo_world)) = files demo_world"
    and c: "heap (snd (compile demo_env fst_source demo_world)) = heap demo_world"
    by simp_all
  from t h1 h2 h3 h4 h5 have "compile demo_env fst_source demo_world =
     (Failed, logError ''Unimplemented model format fst-foma-1.0'' demo_world)"
    by (elim conjE allE[where x = "''demo.en.sample.model_info''"]
          allE[where x = "''demo.en.sample''"] allE[where x = "[]"]
          allE[where x = "(''group'', ''demo'', ''en.sample'')"] allE[where x = "[''hello'']"]) simp
  with f a b c show ?thesis by simp
qed

text \<open>
  Claim C5 as stated fails: with no info file in the parent directory, the error that
  \<open>compile\<close> logs for a source of format \<open>fst-foma-1.0\<close> is the discovery error, and
  nothing about the format is logged.
\<close>

theorem fst_foma_other_error_counterexample:
  "format fst_source = ''fst-foma-1.0'' \<and>
   fst (compile demo_env fst_source no_info_world) = Failed \<and>
   errlog (snd (compile demo_env fst_source no_info_world)) =
     [''Unable to find .model_info file in parent folder'']"
  by code_simp

subsection \<open>Invalid identifiers\<close>

text \<open>
  Every stem that the code extracts from the name of the info file (a stem that is not
  empty and holds no line terminator) and that violates the identifier pattern makes
  \<open>compile\<close> return \<open>false\<close> after logging the identity error, which names the required
  shape; only the log changes.
\<close>

lemma invalid_identifier_rejected:
  assumes "find_model_info (parent_dir w) = Some f"
    and "match_stem f = Some stem"
    and "\<not> MODEL_ID_PATTERN stem"
  shows "compile E modelSource w = (Failed, logError (invalid_id_message stem) w)"
proof -
  have "build_script E modelSource w = Inl (Logged (invalid_id_message stem))"
    using assms by (simp add: build_script_def resolve_model_id_def)
  then show ?thesis by (rule compile_Logged)
qed

lemma invalid_identifier_example:
  "compile demo_env demo_source invalid_id_world =
     (Failed, logError (invalid_id_message ''Demo.en.sample'') invalid_id_world)"
proof -
  have 1: "find_model_info (parent_dir invalid_id_world) = Some ''Demo.en.sample.model_info''"
    by code_simp
  have 2: "match_stem ''Demo.en.sample.model_info'' = Some ''Demo.en.sample''" by code_simp
  have 3: "\<not> MODEL_ID_PATTERN ''Demo.en.sample''" by code_simp
  from invalid_identifier_rejected[OF 1 2 3] show ?thesis .
qed

text \<open>
  Claim C7 at the info file named \<open>.model_info\<close>: the file is found, its stem is empty and
  violates the pattern, but the match that extracts the stem yields \<open>null\<close>, and indexing
  it raises a TypeError: \<open>compile\<close> does not return \<open>false\<close> and logs no identity error.
\<close>

theorem empty_stem_raises_type_error:
  "find_model_info (parent_dir dotfile_world) = Some ''.model_info'' \<and>
   match_stem ''.model_info'' = None \<and>
   fst (compile demo_env demo_source dotfile_world) = Thrown TypeError \<and>
   errlog (snd (compile demo_env demo_source dotfile_world)) = []"
  by code_simp

subsection \<open>The model source description after \<open>compile\<close>\<close>

text \<open>
  The heap of word-breaking objects after \<open>compile\<close>, for every build: the object of the
  source loses its \<open>sources\<close> property whenever the script gets built and that property
  is non-blank; nothing else changes.
\<close>

lemma get_prop_delete_prop:
  "get_prop (delete_prop k ob) k' = (if k' = k then JUndefined else get_prop ob k')"
  by (simp add: get_prop_def delete_prop_def delete_conv')

lemma emit_word_breaking_heap:
  assumes "emit_word_breaking E s \<lparr>oc_id = i, oc_format = format s,
             oc_wordBreaking = wordBreaking s, oc_fst = None\<rparr> fs hp = Inr (text, hp')"
  shows "hp' = (case wordBreaking s of
                  None \<Rightarrow> hp
                | Some a \<Rightarrow> if truthy (get_prop (hp a) ''sources'')
                            then hp(a := delete_prop ''sources'' (hp a)) else hp)"
  using assms
  by (auto simp: emit_word_breaking_def load_word_breaking_sources_def delete_sources_def
           split: option.splits sum.splits if_splits)

lemma heap_after_compile:
  "heap (snd (compile E s w)) =
     (case build_script E s w of
        Inl f \<Rightarrow> heap w
      | Inr r \<Rightarrow>
         (case wordBreaking s of
            None \<Rightarrow> heap w
          | Some a \<Rightarrow> if truthy (get_prop (heap w a) ''sources'')
                      then (heap w)(a := delete_prop ''sources'' (heap w a)) else heap w))"
proof (cases "build_script E s w")
  case (Inl f)
  then show ?thesis by (cases f) (simp_all add: compile_def logError_def)
next
  case (Inr r)
  from build_script_Inr[OF Inr] obtain wb where
    "emit_word_breaking E s \<lparr>oc_id = s_model_id r, oc_format = format s,
       oc_wordBreaking = wordBreaking s, oc_fst = None\<rparr> (files w) (heap w) = Inr (wb, s_heap r)"
    by (elim exE conjE)
  from emit_word_breaking_heap[OF this] compile_script_written(2)[OF Inr] Inr
  show ?thesis by simp
qed

lemma word_breaking_sources_deleted:
  assumes "build_script E s w = Inr r"
    and "wordBreaking s = Some a"
    and "truthy (get_prop (heap w a) ''sources'')"
  shows "get_prop (heap (snd (compile E s w)) a) ''sources'' = JUndefined"
    and "get_prop (heap (snd (compile E s w)) a) ''sources'' \<noteq> get_prop (heap w a) ''sources''"
  using assms by (auto simp: heap_after_compile get_prop_delete_prop)

lemma compile_frame_of_source:
  "wordBreaking s \<noteq> Some a \<or> k \<noteq> ''sources'' \<Longrightarrow>
   get_prop (heap (snd (compile E s w)) a) k = get_prop (heap w a) k"
  by (auto simp: heap_after_compile get_prop_delete_prop split: sum.splits option.splits)

text \<open>
  Claim C1 at the source \<open>demo_source\<close>: its word-breaking object (address 0) lists the
  source \<open>wb.ts\<close> before the call; \<open>compile\<close> completes, and afterwards the object that
  the caller passed in has no \<open>sources\<close> property.
\<close>

theorem compile_deletes_sources_of_input:
  "wordBreaking demo_source = Some 0 \<and>
   get_prop (heap demo_world 0) ''sources'' = JArr [JStr ''wb.ts''] \<and>
   fst (compile demo_env demo_source demo_world) = Completed \<and>
   get_prop (heap (snd (compile demo_env demo_source demo_world)) 0) ''sources'' = JUndefined"
  by code_simp

subsection \<open>Discovery of the info file\<close>

text \<open>
  Claim C2, as amended. Discovery fails exactly when no name in the parent directory ends
  in \<open>.model_info\<close>, and then \<open>compile\<close> returns \<open>false\<close> after logging that the info file
  was not found. When at least one name matches, the first match in the order of the
  directory listing is taken, whatever follows it.
\<close>

theorem info_file_discovery:
  "(find_model_info (parent_dir w) = None) = (\<forall>f\<in>set (parent_dir w). \<not> is_model_info f) \<and>
   ((\<forall>f\<in>set (parent_dir w). \<not> is_model_info f) \<longrightarrow>
      compile E modelSource w =
        (Failed, logError ''Unable to find .model_info file in parent folder'' w)) \<and>
   (\<forall>before f after.
      parent_dir w = before @ f # after \<and> is_model_info f \<and>
      (\<forall>g\<in>set before. \<not> is_model_info g) \<longrightarrow>
      find_model_info (parent_dir w) = Some f)"
proof -
  have a: "(find_model_info (parent_dir w) = None) = (\<forall>f\<in>set (parent_dir w). \<not> is_model_info f)"
    by (auto simp: find_model_info_def find_None_iff)
  have b: "compile E modelSource w =
             (Failed, logError ''Unable to find .model_info file in parent folder'' w)"
    if "\<forall>f\<in>set (parent_dir w). \<not> is_model_info f"
  proof -
    from that a have "find_model_info (parent_dir w) = None" by simp
    then have "build_script E modelSource w =
                 Inl (Logged ''Unable to find .model_info file in parent folder'')"
      by (simp add: build_script_def)
    then show ?thesis by (rule compile_Logged)
  qed
  have c: "find P (before @ f # after) = Some f" if "P f" "\<forall>g\<in>set before. \<not> P g"
    for P and before after :: "string list" and f
    using that by (induction before) auto
  from a b c show ?thesis by (simp add: find_model_info_def)
qed

theorem info_file_discovery_witness:
  "find_model_info (parent_dir two_info_world) = Some ''demo.en.sample.model_info'' \<and>
   find_model_info (parent_dir no_info_world) = None \<and>
   compile demo_env demo_source no_info_world =
     (Failed, logError ''Unable to find .model_info file in parent folder'' no_info_world)"
proof -
  have p: "parent_dir two_info_world =
             [] @ ''demo.en.sample.model_info'' # [''other.en.sample.model_info'', ''source'']"
    by (simp add: two_info_world_def demo_world_def)
  have m: "is_model_info ''demo.en.sample.model_info''" by code_simp
  have n: "\<forall>f\<in>set (parent_dir no_info_world). \<not> is_model_info f" by code_simp
  note t2 = info_file_discovery[of two_info_world demo_env demo_source]
  note t0 = info_file_discovery[of no_info_world demo_env demo_source]
  from t2 p m have "find_model_info (parent_dir two_info_world) = Some ''demo.en.sample.model_info''"
    by (elim conjE allE[where x = "[]"] allE[where x = "''demo.en.sample.model_info''"]
          allE[where x = "[''other.en.sample.model_info'', ''source'']"]) simp
  moreover from t0 n have "find_model_info (parent_dir no_info_world) = None" by simp
  moreover from t0 n have "compile demo_env demo_source no_info_world =
     (Failed, logError ''Unable to find .model_info file in parent folder'' no_info_world)" by simp
  ultimately show ?thesis by simp
qed

text \<open>
  Claim C2 as stated fails: with two names ending in \<open>.model_info\<close> discovery takes the
  first and the build completes.
\<close>

theorem two_info_files_counterexample:
  "length (filter is_model_info (parent_dir two_info_world)) = 2 \<and>
   find_model_info (parent_dir two_info_world) = Some ''demo.en.sample.model_info'' \<and>
   fst (compile demo_env demo_source two_info_world) = Completed"
  by code_simp

subsection \<open>The manifest merge\<close>

lemma get_prop_assign:
  "get_prop (assign k v ob) k' = (if k' = k then v else get_prop ob k')"
  by (simp add: get_prop_def assign_def update_conv')

lemma get_prop_assign_or:
  "get_prop (assign_or k d ob) k' = (if k' = k then js_or (get_prop ob k) d else get_prop ob k')"
  by (simp add: assign_or_def get_prop_assign)

lemma get_prop_assign_other:
  "k' \<noteq> k \<Longrightarrow> get_prop (assign k v ob) k' = get_prop ob k'"
  by (simp add: get_prop_assign)

lemma get_prop_assign_or_truthy:
  "truthy (get_prop ob k') \<Longrightarrow> get_prop (assign_or k d ob) k' = get_prop ob k'"
  by (auto simp: get_prop_assign_or js_or_def)

lemma get_prop_assign_or_other:
  "k' \<noteq> k \<Longrightarrow> get_prop (assign_or k d ob) k' = get_prop ob k'"
  by (simp add: get_prop_assign_or)

lemma get_prop_assign_same:
  "get_prop (assign k v ob) k = v"
  by (simp add: get_prop_assign)

lemma statSync_size_Inr:
  "statSync_size fs p = Inr n \<Longrightarrow> \<exists>s c. p = JStr s \<and> fs s = Some c \<and> n = int (length c)"
  by (auto simp: statSync_size_def split: jsval.splits option.splits)

text \<open>
  Claim C3, as amended. In the manifest merge every non-blank value of the input manifest
  is kept, whatever the field, except in four fields: \<open>id\<close>, \<open>packageFileSize\<close>,
  \<open>jsFileSize\<close> and \<open>packageIncludes\<close>. Of these, \<open>id\<close> is always the resolved model
  identifier and \<open>packageIncludes\<close> is always the list computed from the files of the
  package, whatever the author wrote. In particular an author's name, languages, version,
  lastModifiedDate, packageFilename, jsFilename, minKeymanVersion and sourcePath are
  never replaced.
\<close>

theorem author_values_preserved:
  assumes "merge_model_info now fs model_id kmpJsonData groupPath authorPath bcp47Path model_info0 =
             Inr model_info"
  shows "(\<forall>k. k \<notin> {''id'', ''packageFileSize'', ''jsFileSize'', ''packageIncludes''} \<and>
              truthy (get_prop model_info0 k) \<longrightarrow>
              get_prop model_info k = get_prop model_info0 k) \<and>
         get_prop model_info ''id'' = JStr model_id \<and>
         get_prop model_info ''packageIncludes'' = kmp_includes kmpJsonData"
proof -
  have a: "get_prop model_info k = get_prop model_info0 k"
    if "k \<noteq> ''id''" "k \<noteq> ''packageFileSize''" "k \<noteq> ''jsFileSize''" "k \<noteq> ''packageIncludes''"
       "truthy (get_prop model_info0 k)" for k
    using assms that
    by (auto simp: merge_model_info_def Let_def get_prop_assign_other get_prop_assign_or_truthy
             split: sum.splits)
  have b: "get_prop model_info ''id'' = JStr model_id"
    using assms
    by (auto simp: merge_model_info_def Let_def get_prop_assign_other get_prop_assign_or_other
          get_prop_assign_same split: sum.splits)
  have c: "get_prop model_info ''packageIncludes'' = kmp_includes kmpJsonData"
    using assms
    by (auto simp: merge_model_info_def Let_def get_prop_assign_other get_prop_assign_or_other
          get_prop_assign_same split: sum.splits)
  from a b c show ?thesis by simp
qed


theorem author_values_preserved_witness:
  "merge_model_info ''2019-01-01T00:00:00.000Z'' demo_sizes ''demo.en.sample'' demo_kmp
     ''group'' ''demo'' ''en.sample'' (full_info ''mine.en.sample'') =
     Inr (full_info ''demo.en.sample'') \<and>
   truthy (get_prop (full_info ''mine.en.sample'') ''name'') \<and>
   get_prop (full_info ''demo.en.sample'') ''name'' = get_prop (full_info ''mine.en.sample'') ''name'' \<and>
   get_prop (full_info ''demo.en.sample'') ''id'' = JStr ''demo.en.sample''"
proof -
  have h: "merge_model_info ''2019-01-01T00:00:00.000Z'' demo_sizes ''demo.en.sample'' demo_kmp
     ''group'' ''demo'' ''en.sample'' (full_info ''mine.en.sample'') =
     Inr (full_info ''demo.en.sample'')"
    by code_simp
  have t: "truthy (get_prop (full_info ''mine.en.sample'') ''name'')" by code_simp
  note p = author_values_preserved[OF h]
  from p t have "get_prop (full_info ''demo.en.sample'') ''name'' =
                 get_prop (full_info ''mine.en.sample'') ''name''"
    by (elim conjE allE[where x = "''name''"]) simp
  moreover from p have "get_prop (full_info ''demo.en.sample'') ''id'' = JStr ''demo.en.sample''"
    by (elim conjE)
  ultimately show ?thesis using h t by simp
qed

text \<open>
  Claim C3 as stated fails: an author's \<open>id\<close> and \<open>packageIncludes\<close> are replaced by the
  merge.
\<close>

theorem author_id_and_includes_replaced_counterexample:
  "truthy (get_prop authored_info ''id'') \<and>
   truthy (get_prop authored_info ''packageIncludes'') \<and>
   merge_model_info ''2019-01-01T00:00:00.000Z'' demo_sizes ''demo.en.sample'' demo_kmp
     ''group'' ''demo'' ''en.sample'' authored_info =
     Inr [(''id'', JStr ''demo.en.sample''), (''packageIncludes'', JArr []),
          (''name'', JStr ''Demo''), (''authorName'', JStr ''Author''),
          (''authorEmail'', JStr ''mailto:nobody@example.com''),
          (''languages'', JArr [JArr [JStr ''en'']]),
          (''lastModifiedDate'', JStr ''2019-01-01T00:00:00.000Z''),
          (''packageFilename'', JStr ''demo.en.sample.model.kmp''),
          (''packageFileSize'', JNum 2),
          (''jsFilename'', JStr ''demo.en.sample.model.js''),
          (''jsFileSize'', JNum 3), (''version'', JStr ''1.0''),
          (''minKeymanVersion'', JStr ''12.0''),
          (''sourcePath'', JStr ''group/demo/en.sample'')] \<and>
   get_prop authored_info ''id'' = JStr ''mine'' \<and>
   get_prop authored_info ''packageIncludes'' = JArr [JStr ''fonts'']"
  by code_simp





text \<open>
  The merge is idempotent: run again on its own result, with the same time stamp, files,
  identifier, package data and path segments, it returns that result, whether or not every
  field is non-blank.
\<close>

lemma map_of_assign: "map_of (assign k v ob) = (map_of ob)(k \<mapsto> v)"
  by (simp add: assign_def update_conv')

lemma map_of_assign_or:
  "map_of (assign_or k d ob) = (map_of ob)(k \<mapsto> js_or (get_prop ob k) d)"
  by (simp add: assign_or_def map_of_assign)

lemma assign_fix: "map_of ob k = Some v \<Longrightarrow> assign k v ob = ob"
  by (simp add: assign_def update_triv)

lemma assign_or_fix:
  assumes "map_of ob k = Some (js_or x d)"
  shows "assign_or k d ob = ob"
proof -
  from assms have "get_prop ob k = js_or x d" by (simp add: get_prop_def)
  then have "js_or (get_prop ob k) d = js_or x d" by (simp add: js_or_def)
  with assms show ?thesis by (simp add: assign_or_def assign_fix)
qed

lemma merge_model_info_result:
  assumes "merge_model_info now fs model_id kmpJsonData groupPath authorPath bcp47Path model_info0 =
             Inr model_info"
  shows "\<exists>package_size js_size.
     statSync_size fs (js_or (get_prop model_info0 ''packageFilename'') (JStr (kmpFileName model_id))) =
       Inr package_size \<and>
     statSync_size fs (js_or (get_prop model_info0 ''jsFilename'') (JStr (modelFileName model_id))) =
       Inr js_size \<and>
     map_of model_info ''id'' = Some (JStr model_id) \<and>
     map_of model_info ''name'' =
       Some (js_or (get_prop model_info0 ''name'') (info_name_description kmpJsonData)) \<and>
     map_of model_info ''authorName'' =
       Some (js_or (get_prop model_info0 ''authorName'') (info_author_description kmpJsonData)) \<and>
     map_of model_info ''authorEmail'' =
       Some (js_or (get_prop model_info0 ''authorEmail'') (info_author_url kmpJsonData)) \<and>
     map_of model_info ''languages'' =
       Some (js_or (get_prop model_info0 ''languages'') (kmp_languages kmpJsonData)) \<and>
     map_of model_info ''lastModifiedDate'' =
       Some (js_or (get_prop model_info0 ''lastModifiedDate'') (JStr now)) \<and>
     map_of model_info ''packageFilename'' =
       Some (js_or (get_prop model_info0 ''packageFilename'') (JStr (kmpFileName model_id))) \<and>
     map_of model_info ''packageFileSize'' = Some (JNum package_size) \<and>
     map_of model_info ''jsFilename'' =
       Some (js_or (get_prop model_info0 ''jsFilename'') (JStr (modelFileName model_id))) \<and>
     map_of model_info ''jsFileSize'' = Some (JNum js_size) \<and>
     map_of model_info ''packageIncludes'' = Some (kmp_includes kmpJsonData) \<and>
     map_of model_info ''version'' =
       Some (js_or (get_prop model_info0 ''version'') (info_version_description kmpJsonData)) \<and>
     map_of model_info ''minKeymanVersion'' =
       Some (js_or (get_prop model_info0 ''minKeymanVersion'') (JStr minKeymanVersion)) \<and>
     map_of model_info ''sourcePath'' =
       Some (js_or (get_prop model_info0 ''sourcePath'')
                   (JStr (join ''/'' [groupPath, authorPath, bcp47Path])))"
  using assms
  by (auto simp: merge_model_info_def Let_def map_of_assign map_of_assign_or get_prop_assign
        get_prop_assign_or split: sum.splits)

lemma merge_idempotent:
  assumes "merge_model_info now fs model_id kmpJsonData groupPath authorPath bcp47Path model_info0 =
             Inr model_info"
  shows "merge_model_info now fs model_id kmpJsonData groupPath authorPath bcp47Path model_info =
           Inr model_info"
proof -
  from merge_model_info_result[OF assms] obtain package_size js_size where
    s1: "statSync_size fs (js_or (get_prop model_info0 ''packageFilename'')
           (JStr (kmpFileName model_id))) = Inr package_size"
    and s2: "statSync_size fs (js_or (get_prop model_info0 ''jsFilename'')
           (JStr (modelFileName model_id))) = Inr js_size"
    and m: "map_of model_info ''id'' = Some (JStr model_id)"
      "map_of model_info ''name'' =
         Some (js_or (get_prop model_info0 ''name'') (info_name_description kmpJsonData))"
      "map_of model_info ''authorName'' =
         Some (js_or (get_prop model_info0 ''authorName'') (info_author_description kmpJsonData))"
      "map_of model_info ''authorEmail'' =
         Some (js_or (get_prop model_info0 ''authorEmail'') (info_author_url kmpJsonData))"
      "map_of model_info ''languages'' =
         Some (js_or (get_prop model_info0 ''languages'') (kmp_languages kmpJsonData))"
      "map_of model_info ''lastModifiedDate'' =
         Some (js_or (get_prop model_info0 ''lastModifiedDate'') (JStr now))"
      "map_of model_info ''packageFilename'' =
         Some (js_or (get_prop model_info0 ''packageFilename'') (JStr (kmpFileName model_id)))"
      "map_of model_info ''packageFileSize'' = Some (JNum package_size)"
      "map_of model_info ''jsFilename'' =
         Some (js_or (get_prop model_info0 ''jsFilename'') (JStr (modelFileName model_id)))"
      "map_of model_info ''jsFileSize'' = Some (JNum js_size)"
      "map_of model_info ''packageIncludes'' = Some (kmp_includes kmpJsonData)"
      "map_of model_info ''version'' =
         Some (js_or (get_prop model_info0 ''version'') (info_version_description kmpJsonData))"
      "map_of model_info ''minKeymanVersion'' =
         Some (js_or (get_prop model_info0 ''minKeymanVersion'') (JStr minKeymanVersion))"
      "map_of model_info ''sourcePath'' =
         Some (js_or (get_prop model_info0 ''sourcePath'')
                     (JStr (join ''/'' [groupPath, authorPath, bcp47Path])))"
    by (elim exE conjE)
  note fx = m(1,8,10,11)[THEN assign_fix] m(2-7,9,12-14)[THEN assign_or_fix]
  have g: "get_prop model_info ''packageFilename'' =
             js_or (get_prop model_info0 ''packageFilename'') (JStr (kmpFileName model_id))"
          "get_prop model_info ''jsFilename'' =
             js_or (get_prop model_info0 ''jsFilename'') (JStr (modelFileName model_id))"
    using m(7,9) by (simp_all add: get_prop_def)
  show ?thesis
    unfolding merge_model_info_def Let_def
    by (simp add: fx g s1 s2 del: join.simps)
qed




lemma merge_model_info_Inr:
  assumes "merge_model_info now fs model_id kmpJsonData groupPath authorPath bcp47Path model_info0 =
             Inr model_info"
  shows "\<exists>package_size js_size.
           get_prop model_info ''packageFilename'' =
             js_or (get_prop model_info0 ''packageFilename'') (JStr (kmpFileName model_id)) \<and>
           statSync_size fs (get_prop model_info ''packageFilename'') = Inr package_size \<and>
           get_prop model_info ''packageFileSize'' = JNum package_size \<and>
           get_prop model_info ''jsFilename'' =
             js_or (get_prop model_info0 ''jsFilename'') (JStr (modelFileName model_id)) \<and>
           statSync_size fs (get_prop model_info ''jsFilename'') = Inr js_size \<and>
           get_prop model_info ''jsFileSize'' = JNum js_size"
  using assms
  by (auto simp: merge_model_info_def Let_def get_prop_assign get_prop_assign_or split: sum.splits)

lemma compile_Completed:
  assumes "fst (compile E s w) = Completed"
  shows "\<exists>r kmpJsonData fs2 merged.
           build_script E s w = Inr r \<and>
           build_package E (s_model_id r) ((files w)(modelFileName (s_model_id r) \<mapsto> s_func r)) =
             Inr (kmpJsonData, fs2) \<and>
           merge_model_info (toISOString_now E) fs2 (s_model_id r) kmpJsonData
             (s_groupPath r) (s_authorPath r) (s_bcp47Path r) (s_model_info r) = Inr merged \<and>
           merged_manifest E s w = Some (s_model_id r, merged, fs2) \<and>
           files (snd (compile E s w)) =
             fs2(modelInfoFileName (s_model_id r) \<mapsto> json_stringify_pretty E (JObj merged))"
  using assms
  by (auto simp: compile_def merged_manifest_def Let_def
           split: sum.splits failure.splits prod.splits)

text \<open>
  Claim C4, as amended. For every build that completes, the \<open>packageFileSize\<close> and
  \<open>jsFileSize\<close> fields of the manifest that is written are the sizes, in the files as they
  are after the script and the package were written, of the files that the merged
  manifest's \<open>packageFilename\<close> and \<open>jsFilename\<close> name. These are the names the author
  supplied where they are non-blank; where the author left them blank they are
  \<open>{identifier}.model.kmp\<close> and \<open>{identifier}.model.js\<close>, and the script measured is the
  text this run wrote.
\<close>

theorem sizes_of_named_files:
  assumes "fst (compile E modelSource w) = Completed"
  shows "\<exists>r merged fs2 p q cp cq.
           build_script E modelSource w = Inr r \<and>
           merged_manifest E modelSource w = Some (s_model_id r, merged, fs2) \<and>
           files (snd (compile E modelSource w)) =
             fs2(modelInfoFileName (s_model_id r) \<mapsto> json_stringify_pretty E (JObj merged)) \<and>
           get_prop merged ''packageFilename'' = JStr p \<and> fs2 p = Some cp \<and>
           get_prop merged ''packageFileSize'' = JNum (int (length cp)) \<and>
           get_prop merged ''jsFilename'' = JStr q \<and> fs2 q = Some cq \<and>
           get_prop merged ''jsFileSize'' = JNum (int (length cq)) \<and>
           (if truthy (get_prop (s_model_info r) ''packageFilename'')
            then get_prop (s_model_info r) ''packageFilename'' = JStr p
            else p = kmpFileName (s_model_id r)) \<and>
           (if truthy (get_prop (s_model_info r) ''jsFilename'')
            then get_prop (s_model_info r) ''jsFilename'' = JStr q
            else q = modelFileName (s_model_id r) \<and> cq = s_func r)"
proof -
  from compile_Completed[OF assms] obtain r kmpJsonData fs2 merged where
    r: "build_script E modelSource w = Inr r"
    and bp: "build_package E (s_model_id r) ((files w)(modelFileName (s_model_id r) \<mapsto> s_func r)) =
               Inr (kmpJsonData, fs2)"
    and mg: "merge_model_info (toISOString_now E) fs2 (s_model_id r) kmpJsonData
               (s_groupPath r) (s_authorPath r) (s_bcp47Path r) (s_model_info r) = Inr merged"
    and mm: "merged_manifest E modelSource w = Some (s_model_id r, merged, fs2)"
    and fl: "files (snd (compile E modelSource w)) =
               fs2(modelInfoFileName (s_model_id r) \<mapsto> json_stringify_pretty E (JObj merged))"
    by (elim exE conjE)
  from merge_model_info_Inr[OF mg] obtain package_size js_size where
    pf: "get_prop merged ''packageFilename'' =
           js_or (get_prop (s_model_info r) ''packageFilename'') (JStr (kmpFileName (s_model_id r)))"
    and ps: "statSync_size fs2 (get_prop merged ''packageFilename'') = Inr package_size"
    and pz: "get_prop merged ''packageFileSize'' = JNum package_size"
    and jf: "get_prop merged ''jsFilename'' =
           js_or (get_prop (s_model_info r) ''jsFilename'') (JStr (modelFileName (s_model_id r)))"
    and js: "statSync_size fs2 (get_prop merged ''jsFilename'') = Inr js_size"
    and jz: "get_prop merged ''jsFileSize'' = JNum js_size"
    by (elim exE conjE)
  from statSync_size_Inr[OF ps] obtain p cp where
    p: "get_prop merged ''packageFilename'' = JStr p" "fs2 p = Some cp" "package_size = int (length cp)"
    by (elim exE conjE)
  from statSync_size_Inr[OF js] obtain q cq where
    q: "get_prop merged ''jsFilename'' = JStr q" "fs2 q = Some cq" "js_size = int (length cq)"
    by (elim exE conjE)
  from build_package_files[OF bp] obtain archive where
    fs2: "fs2 = (files w)(modelFileName (s_model_id r) \<mapsto> s_func r, kmpFileName (s_model_id r) \<mapsto> archive)"
    by (elim exE)
  have a: "if truthy (get_prop (s_model_info r) ''packageFilename'')
            then get_prop (s_model_info r) ''packageFilename'' = JStr p
            else p = kmpFileName (s_model_id r)"
    using pf p(1) by (simp add: js_or_def split: if_splits)
  have b: "if truthy (get_prop (s_model_info r) ''jsFilename'')
            then get_prop (s_model_info r) ''jsFilename'' = JStr q
            else q = modelFileName (s_model_id r) \<and> cq = s_func r"
    using jf q(1,2) fs2 file_names_distinct(1)[of "s_model_id r"]
    by (auto simp: js_or_def split: if_splits)
  show ?thesis
    by (rule exI[where x = r], rule exI[where x = merged], rule exI[where x = fs2],
        rule exI[where x = p], rule exI[where x = q], rule exI[where x = cp], rule exI[where x = cq])
       (use r mm fl p q pz jz a b in simp)
qed

text \<open>
  Claim C4 as stated fails: when the info file names the package file \<open>old.kmp\<close> (7 bytes),
  the build completes and \<open>packageFileSize\<close> is 7, while the archive
  \<open>demo.en.sample.model.kmp\<close> that this run wrote has 2 bytes.
\<close>

theorem stale_package_size_counterexample:
  "fst (compile demo_env demo_source authored_world) = Completed \<and>
   map_option (\<lambda>(model_id, merged, fs2).
        (model_id, get_prop merged ''packageFilename'', get_prop merged ''packageFileSize'',
         map_option length (fs2 (kmpFileName model_id))))
     (merged_manifest demo_env demo_source authored_world) =
     Some (''demo.en.sample'', JStr ''old.kmp'', JNum 7, Some 2)"
  by code_simp


theorem sizes_of_named_files_witness:
  "fst (compile demo_env demo_source authored_world) = Completed \<and>
   (\<exists>r merged fs2 p q cp cq.
           build_script demo_env demo_source authored_world = Inr r \<and>
           merged_manifest demo_env demo_source authored_world = Some (s_model_id r, merged, fs2) \<and>
           files (snd (compile demo_env demo_source authored_world)) =
             fs2(modelInfoFileName (s_model_id r) \<mapsto> json_stringify_pretty demo_env (JObj merged)) \<and>
           get_prop merged ''packageFilename'' = JStr p \<and> fs2 p = Some cp \<and>
           get_prop merged ''packageFileSize'' = JNum (int (length cp)) \<and>
           get_prop merged ''jsFilename'' = JStr q \<and> fs2 q = Some cq \<and>
           get_prop merged ''jsFileSize'' = JNum (int (length cq)) \<and>
           (if truthy (get_prop (s_model_info r) ''packageFilename'')
            then get_prop (s_model_info r) ''packageFilename'' = JStr p
            else p = kmpFileName (s_model_id r)) \<and>
           (if truthy (get_prop (s_model_info r) ''jsFilename'')
            then get_prop (s_model_info r) ''jsFilename'' = JStr q
            else q = modelFileName (s_model_id r) \<and> cq = s_func r))"
proof -
  have h: "fst (compile demo_env demo_source authored_world) = Completed" by code_simp
  from h sizes_of_named_files[OF h] show ?thesis by (rule conjI)
qed

end
